theory Spec2Isabelle
  imports Main "HOL-Library.Log_Nat"
begin

section \<open>Python values used by the trading bot\<close>

text \<open>
  Python strings are modelled as \<^typ>\<open>string\<close>. The command line of the bot is
  ASCII text; \<open>str.upper\<close>, \<open>str.lower\<close> and \<open>str.strip\<close> are modelled on
  ASCII, and every other character is left as it is and is not white space.
\<close>

definition upper_char :: "char \<Rightarrow> char" where
  "upper_char c =
     (let n = of_char c :: nat in if 97 \<le> n \<and> n \<le> 122 then char_of (n - 32) else c)"

definition lower_char :: "char \<Rightarrow> char" where
  "lower_char c =
     (let n = of_char c :: nat in if 65 \<le> n \<and> n \<le> 90 then char_of (n + 32) else c)"

definition upper :: "string \<Rightarrow> string" where
  "upper s = map upper_char s"

definition lower :: "string \<Rightarrow> string" where
  "lower s = map lower_char s"

text \<open>
  The characters \<open>str.strip()\<close> removes: the ASCII characters for which
  \<open>str.isspace\<close> holds (tab, line feed, vertical tab, form feed, carriage return,
  the four separators 0x1C to 0x1F, and the space).
\<close>

definition whitespace :: "char list" where
  "whitespace = [CHR 0x09, CHR 0x0A, CHR 0x0B, CHR 0x0C, CHR 0x0D,
                 CHR 0x1C, CHR 0x1D, CHR 0x1E, CHR 0x1F, CHR 0x20]"

definition is_space :: "char \<Rightarrow> bool" where
  "is_space c = (c \<in> set whitespace)"

definition lstrip :: "string \<Rightarrow> string" where
  "lstrip s = dropWhile is_space s"

definition rstrip :: "string \<Rightarrow> string" where
  "rstrip s = rev (dropWhile is_space (rev s))"

definition strip :: "string \<Rightarrow> string" where
  "strip s = rstrip (lstrip s)"

text \<open>
  The exceptions of the program. \<open>ValueError\<close> and \<open>Exception\<close> carry their message,
  \<open>BinanceAPIException\<close> its code and message; \<open>Exception\<close> stands for every other
  class derived from \<open>Exception\<close> (such as \<open>EOFError\<close>), which the handlers of the
  program do not tell apart. \<open>KeyboardInterrupt\<close> is not derived from \<open>Exception\<close>.
\<close>

datatype exn =
    ValueError string
  | BinanceAPIException int string
  | Exception string
  | KeyboardInterrupt

subsection \<open>Floats\<close>

text \<open>
  A Python float is a binary64 value: a finite number (kept as the rational it denotes;
  the sign of zero is not kept), an infinity or a NaN. Comparisons with a NaN are false.
\<close>

datatype pyfloat = Fin rat | PInf | NInf | NaN

fun float_le :: "pyfloat \<Rightarrow> pyfloat \<Rightarrow> bool" where
  "float_le NaN _ = False"
| "float_le _ NaN = False"
| "float_le NInf _ = True"
| "float_le _ PInf = True"
| "float_le PInf _ = False"
| "float_le _ NInf = False"
| "float_le (Fin a) (Fin b) = (a \<le> b)"

fun float_lt :: "pyfloat \<Rightarrow> pyfloat \<Rightarrow> bool" where
  "float_lt NaN _ = False"
| "float_lt _ NaN = False"
| "float_lt PInf _ = False"
| "float_lt _ NInf = False"
| "float_lt NInf _ = True"
| "float_lt _ PInf = True"
| "float_lt (Fin a) (Fin b) = (a < b)"

text \<open>Truth value of a float in a condition: zero is false, everything else true.\<close>

fun float_bool :: "pyfloat \<Rightarrow> bool" where
  "float_bool (Fin q) = (q \<noteq> 0)"
| "float_bool _ = True"

text \<open>Rounding a rational to the nearest binary64 value, ties to even.\<close>

definition pow2 :: "int \<Rightarrow> rat" where
  "pow2 k = (if 0 \<le> k then 2 ^ nat k else 1 / 2 ^ nat (- k))"

definition ilog2 :: "rat \<Rightarrow> int" where
  "ilog2 a = (let (n, d) = quotient_of a; k = bitlen n - bitlen d
              in if pow2 k \<le> a then k else k - 1)"

definition round_half_even :: "rat \<Rightarrow> int" where
  "round_half_even x =
     (let f = \<lfloor>x\<rfloor>; r = x - of_int f
      in if r < 1 / 2 then f else if 1 / 2 < r then f + 1 else if even f then f else f + 1)"

definition round_binary64 :: "rat \<Rightarrow> pyfloat" where
  "round_binary64 q =
     (if q = 0 then Fin 0
      else let a = \<bar>q\<bar>;
               e = max (ilog2 a) (- 1022);
               u = pow2 (e - 52);
               m = round_half_even (a / u)
           in if 1023 < e \<or> (e = 1023 \<and> m = 2 ^ 53) then (if q < 0 then NInf else PInf)
              else Fin (if q < 0 then - (of_int m * u) else of_int m * u))"

text \<open>
  The builtin \<open>float(s)\<close> on a string: white space around the text is dropped, then
  an optional sign and either \<open>inf\<close>, \<open>infinity\<close> or \<open>nan\<close> in any case, or a decimal
  number with an optional fraction and exponent, whose digits may be grouped by single
  underscores. \<open>None\<close> stands for the ValueError that \<open>float\<close> raises.
\<close>

definition float_space :: "char \<Rightarrow> bool" where
  "float_space c = (c \<in> set [CHR 0x09, CHR 0x0A, CHR 0x0B, CHR 0x0C, CHR 0x0D, CHR 0x20])"

definition is_digit :: "char \<Rightarrow> bool" where
  "is_digit c = (c \<in> set ''0123456789'')"

definition digit_val :: "char \<Rightarrow> int" where
  "digit_val c = of_char c - 48"

definition digits_val :: "string \<Rightarrow> int" where
  "digits_val ds = foldl (\<lambda>n c. 10 * n + digit_val c) 0 ds"

fun digitpart :: "string \<Rightarrow> string \<times> string" where
  "digitpart [] = ([], [])"
| "digitpart [c] = (if is_digit c then ([c], []) else ([], [c]))"
| "digitpart (c # u # s) =
     (if \<not> is_digit c then ([], c # u # s)
      else if u = CHR ''_'' \<and> s \<noteq> [] \<and> is_digit (hd s)
           then (let (ds, r) = digitpart s in (c # ds, r))
           else (let (ds, r) = digitpart (u # s) in (c # ds, r)))"

definition take_sign :: "string \<Rightarrow> bool \<times> string" where
  "take_sign s = (case s of [] \<Rightarrow> (False, [])
                  | c # r \<Rightarrow> if c = CHR ''-'' then (True, r)
                            else if c = CHR ''+'' then (False, r) else (False, s))"

definition parse_exponent :: "string \<Rightarrow> int option" where
  "parse_exponent s =
     (case s of [] \<Rightarrow> Some 0
      | c # r \<Rightarrow>
          if c = CHR ''e'' \<or> c = CHR ''E''
          then (let (neg, r1) = take_sign r; (ds, r2) = digitpart r1
                in if ds \<noteq> [] \<and> r2 = []
                   then Some (if neg then - digits_val ds else digits_val ds)
                   else None)
          else None)"

definition parse_number :: "string \<Rightarrow> rat option" where
  "parse_number s =
     (let (ip, r1) = digitpart s;
          (fp, r2) = (case r1 of [] \<Rightarrow> ([], [])
                      | c # r \<Rightarrow> if c = CHR ''.'' then digitpart r else ([], r1))
      in if ip = [] \<and> fp = [] then None
         else (case parse_exponent r2 of None \<Rightarrow> None
               | Some e \<Rightarrow>
                   let m = of_int (digits_val (ip @ fp)) :: rat; x = e - int (length fp)
                   in Some (if 0 \<le> x then m * 10 ^ nat x else m / 10 ^ nat (- x))))"

definition py_float :: "string \<Rightarrow> pyfloat option" where
  "py_float s0 =
     (let s = rev (dropWhile float_space (rev (dropWhile float_space s0)));
          (neg, r) = take_sign s
      in if lower r = ''inf'' \<or> lower r = ''infinity'' then Some (if neg then NInf else PInf)
         else if lower r = ''nan'' then Some NaN
         else (case parse_number r of None \<Rightarrow> None
               | Some q \<Rightarrow> Some (round_binary64 (if neg then - q else q))))"

section \<open>bot/validators.py\<close>

subsection \<open>The regular expression of \<open>validate_symbol\<close>\<close>

text \<open>
  \<open>re.match(r'^[A-Z0-9]{5,12}$', s)\<close>: between 5 and 12 characters of the class,
  followed by the end of the string. In Python \<open>$\<close> also matches just before a
  line feed that ends the string, and the model keeps that case.
\<close>

definition symbol_class :: "char \<Rightarrow> bool" where
  "symbol_class c = (c \<in> set ''ABCDEFGHIJKLMNOPQRSTUVWXYZ0123456789'')"

definition symbol_body :: "string \<Rightarrow> bool" where
  "symbol_body s = (5 \<le> length s \<and> length s \<le> 12 \<and> list_all symbol_class s)"

definition re_match_symbol :: "string \<Rightarrow> bool" where
  "re_match_symbol s =
     (symbol_body s \<or> (s \<noteq> [] \<and> last s = CHR 0x0A \<and> symbol_body (butlast s)))"

subsection \<open>The validators of the three enumerated fields\<close>

definition validate_symbol :: "string \<Rightarrow> exn + string" where
  "validate_symbol symbol0 =
     (let symbol = strip (upper symbol0) in
      if \<not> re_match_symbol symbol
      then Inl (ValueError (''Invalid symbol: '' @ symbol
                  @ ''. Must be like 'BTCUSDT', 'ETHUSDT'' @ [CHR 0x27]))
      else Inr symbol)"

definition validate_side :: "string \<Rightarrow> exn + string" where
  "validate_side side0 =
     (let side = strip (upper side0) in
      if side \<notin> set [''BUY'', ''SELL'']
      then Inl (ValueError (''Invalid side: '' @ side
                  @ ''. Must be 'BUY' or 'SELL'' @ [CHR 0x27]))
      else Inr side)"

definition validate_order_type :: "string \<Rightarrow> exn + string" where
  "validate_order_type order_type0 =
     (let order_type = strip (upper order_type0) in
      if order_type \<notin> set [''MARKET'', ''LIMIT'']
      then Inl (ValueError (''Invalid order type: '' @ order_type
                  @ ''. Must be 'MARKET' or 'LIMIT'' @ [CHR 0x27]))
      else Inr order_type)"

subsection \<open>The validators of the two numeric fields\<close>

text \<open>
  The float literal \<open>0.001\<close> of \<open>validate_quantity\<close> is the binary64 value nearest
  to one thousandth.
\<close>

definition min_quantity :: pyfloat where
  "min_quantity = Fin (1152921504606847 / 1152921504606846976)"

text \<open>
  \<open>validate_quantity\<close> prints, so it returns the lines printed together with its
  result. The text of a float inside an f-string is given by \<open>float_str\<close>, Python's
  \<open>str\<close> on floats, which is a parameter. The body of the \<open>try\<close> comes first, then
  the function with its handler, which replaces every ValueError of the body.
\<close>

definition validate_quantity_try ::
  "(pyfloat \<Rightarrow> string) \<Rightarrow> string \<Rightarrow> string list \<times> (exn + pyfloat)" where
  "validate_quantity_try float_str quantity =
     (case py_float quantity of
        None \<Rightarrow> ([], Inl (ValueError ''could not convert string to float''))
      | Some qty \<Rightarrow>
          if float_le qty (Fin 0)
          then ([], Inl (ValueError ''Quantity must be greater than 0''))
          else (if float_lt qty min_quantity
                then [''Warning: Quantity '' @ float_str qty
                        @ '' might be too small for some symbols'']
                else [],
                Inr qty))"

definition validate_quantity ::
  "(pyfloat \<Rightarrow> string) \<Rightarrow> string \<Rightarrow> string list \<times> (exn + pyfloat)" where
  "validate_quantity float_str quantity =
     (case validate_quantity_try float_str quantity of
        (out, Inl (ValueError _)) \<Rightarrow>
          (out, Inl (ValueError (''Invalid quantity: '' @ quantity
                       @ ''. Must be a positive number'')))
      | r \<Rightarrow> r)"

definition validate_price_try :: "string \<Rightarrow> exn + pyfloat" where
  "validate_price_try price =
     (case py_float price of
        None \<Rightarrow> Inl (ValueError ''could not convert string to float'')
      | Some p \<Rightarrow>
          if float_le p (Fin 0) then Inl (ValueError ''Price must be greater than 0'')
          else Inr p)"

definition validate_price :: "string \<Rightarrow> exn + pyfloat" where
  "validate_price price =
     (case validate_price_try price of
        Inl (ValueError _) \<Rightarrow>
          Inl (ValueError (''Invalid price: '' @ price @ ''. Must be a positive number''))
      | r \<Rightarrow> r)"

section \<open>The exchange client library and the process environment\<close>

text \<open>
  Values that cross the boundary to the exchange: keyword arguments and JSON replies are
  dictionaries from names to strings, integers, floats or \<open>None\<close>.
\<close>

datatype pyval = PStr string | PInt int | PFloat pyfloat | PNone

type_synonym pydict = "(string \<times> pyval) list"

definition dict_get :: "pydict \<Rightarrow> string \<Rightarrow> pyval \<Rightarrow> pyval" where
  "dict_get d k dflt = (case map_of d k of Some v \<Rightarrow> v | None \<Rightarrow> dflt)"

function str_nat :: "nat \<Rightarrow> string" where
  "str_nat n = (if n < 10 then [char_of (48 + n)]
                else str_nat (n div 10) @ [char_of (48 + n mod 10)])"
  by pat_completeness auto
termination
  by (relation "measure id") auto

declare str_nat.simps [simp del]

definition str_int :: "int \<Rightarrow> string" where
  "str_int i = (if i < 0 then CHR ''-'' # str_nat (nat (- i)) else str_nat (nat i))"

definition str_val :: "(pyfloat \<Rightarrow> string) \<Rightarrow> pyval \<Rightarrow> string" where
  "str_val float_str v =
     (case v of PStr s \<Rightarrow> s | PInt i \<Rightarrow> str_int i | PFloat x \<Rightarrow> float_str x
      | PNone \<Rightarrow> ''None'')"

text \<open>\<open>str(e)\<close> of an exception; for \<open>BinanceAPIException\<close> the text the library builds.\<close>

definition str_exn :: "exn \<Rightarrow> string" where
  "str_exn e =
     (case e of ValueError m \<Rightarrow> m
      | BinanceAPIException code m \<Rightarrow> ''APIError(code='' @ str_int code @ ''): '' @ m
      | Exception m \<Rightarrow> m
      | KeyboardInterrupt \<Rightarrow> [])"

text \<open>A call into the outside world returns a value or raises.\<close>

datatype 'a outcome = Returns 'a | Raises exn

text \<open>
  Everything the run of the program depends on besides its arguments: \<open>str\<close> on floats,
  the environment variables, what \<open>input\<close> does at the prompt, and the three operations
  of the exchange library used by the bot (the constructor of \<open>Client\<close> and the two
  futures calls). A value read from the environment is a string or \<open>None\<close>, and is
  passed on to the library as it is.
\<close>

record env =
  float_str :: "pyfloat \<Rightarrow> string"
  getenv :: "string \<Rightarrow> string option"
  input_line :: "string outcome"
  Client :: "string option \<Rightarrow> string option \<Rightarrow> bool \<Rightarrow> unit outcome"
  futures_create_order :: "pydict \<Rightarrow> pydict outcome"
  futures_get_order :: "pydict \<Rightarrow> pydict outcome"

text \<open>What a run does that can be observed, in order.\<close>

datatype event =
    Print string
  | LogInfo string
  | LogError string
  | Connect "string option" "string option" bool
  | CreateOrder pydict
  | GetOrder pydict

section \<open>bot/client.py\<close>

definition BinanceFuturesClient ::
  "env \<Rightarrow> string option \<Rightarrow> string option \<Rightarrow> event list \<times> (exn + unit)" where
  "BinanceFuturesClient w api_key api_secret =
     (let ev = [LogInfo ''Starting Binance Futures client...'', Connect api_key api_secret True]
      in case Client w api_key api_secret True of
           Returns _ \<Rightarrow> (ev @ [LogInfo '' Binance client connected successfully!''], Inr ())
         | Raises KeyboardInterrupt \<Rightarrow> (ev, Inl KeyboardInterrupt)
         | Raises e \<Rightarrow> (ev @ [LogError ('' Failed to connect to Binance: '' @ str_exn e)], Inl e))"

text \<open>The keyword arguments of the three calls to the library.\<close>

definition market_order_kwargs :: "string \<Rightarrow> string \<Rightarrow> pyfloat \<Rightarrow> pydict" where
  "market_order_kwargs symbol side quantity =
     [(''symbol'', PStr symbol), (''side'', PStr (upper side)),
      (''type'', PStr ''MARKET''), (''quantity'', PFloat quantity)]"

definition limit_order_kwargs :: "string \<Rightarrow> string \<Rightarrow> pyfloat \<Rightarrow> pyval \<Rightarrow> pydict" where
  "limit_order_kwargs symbol side quantity price =
     [(''symbol'', PStr symbol), (''side'', PStr (upper side)),
      (''type'', PStr ''LIMIT''), (''quantity'', PFloat quantity),
      (''price'', price), (''timeInForce'', PStr ''GTC'')]"

definition get_order_kwargs :: "string \<Rightarrow> int \<Rightarrow> pydict" where
  "get_order_kwargs symbol order_id = [(''symbol'', PStr symbol), (''orderId'', PInt order_id)]"

definition place_market_order ::
  "env \<Rightarrow> string \<Rightarrow> string \<Rightarrow> pyfloat \<Rightarrow> event list \<times> (exn + pydict)" where
  "place_market_order w symbol side quantity =
     (let kwargs = market_order_kwargs symbol side quantity;
          ev = [LogInfo ('' Placing MARKET order: '' @ side @ '' '' @ float_str w quantity
                          @ '' '' @ symbol),
                CreateOrder kwargs]
      in case futures_create_order w kwargs of
           Returns order \<Rightarrow>
             (ev @ [LogInfo ('' Market order placed! Order ID: ''
                              @ str_val (float_str w) (dict_get order ''orderId'' PNone))],
              Inr order)
         | Raises (BinanceAPIException code message) \<Rightarrow>
             (let error_msg = ''Binance API Error: '' @ message @ '' (Error code: ''
                                @ str_int code @ '')''
              in (ev @ [LogError error_msg], Inl (Exception error_msg)))
         | Raises KeyboardInterrupt \<Rightarrow> (ev, Inl KeyboardInterrupt)
         | Raises e \<Rightarrow>
             (let error_msg = ''Unexpected error placing market order: '' @ str_exn e
              in (ev @ [LogError error_msg], Inl (Exception error_msg))))"

definition place_limit_order ::
  "env \<Rightarrow> string \<Rightarrow> string \<Rightarrow> pyfloat \<Rightarrow> pyval \<Rightarrow> event list \<times> (exn + pydict)" where
  "place_limit_order w symbol side quantity price =
     (let kwargs = limit_order_kwargs symbol side quantity price;
          ev = [LogInfo ('' Placing LIMIT order: '' @ side @ '' '' @ float_str w quantity
                          @ '' '' @ symbol @ '' @ $'' @ str_val (float_str w) price),
                CreateOrder kwargs]
      in case futures_create_order w kwargs of
           Returns order \<Rightarrow>
             (ev @ [LogInfo ('' Limit order placed! Order ID: ''
                              @ str_val (float_str w) (dict_get order ''orderId'' PNone))],
              Inr order)
         | Raises (BinanceAPIException code message) \<Rightarrow>
             (let error_msg = ''Binance API Error: '' @ message @ '' (Error code: ''
                                @ str_int code @ '')''
              in (ev @ [LogError error_msg], Inl (Exception error_msg)))
         | Raises KeyboardInterrupt \<Rightarrow> (ev, Inl KeyboardInterrupt)
         | Raises e \<Rightarrow>
             (let error_msg = ''Unexpected error placing limit order: '' @ str_exn e
              in (ev @ [LogError error_msg], Inl (Exception error_msg))))"

text \<open>\<open>get_order_status\<close> returns the order, or \<open>None\<close> (here \<open>None\<close> of the option type).\<close>

definition get_order_status ::
  "env \<Rightarrow> string \<Rightarrow> int \<Rightarrow> event list \<times> (exn + pydict option)" where
  "get_order_status w symbol order_id =
     (let kwargs = get_order_kwargs symbol order_id;
          ev = [LogInfo ('' Checking order status for ID: '' @ str_int order_id),
                GetOrder kwargs]
      in case futures_get_order w kwargs of
           Returns order_status \<Rightarrow>
             (ev @ [LogInfo (''Order status: ''
                              @ str_val (float_str w) (dict_get order_status ''status'' PNone))],
              Inr (Some order_status))
         | Raises KeyboardInterrupt \<Rightarrow> (ev, Inl KeyboardInterrupt)
         | Raises e \<Rightarrow>
             (ev @ [LogError (''Failed to check order status: '' @ str_exn e)], Inr None))"

section \<open>cli.py\<close>

text \<open>Truth values of optional strings and optional floats in a condition.\<close>

definition str_bool :: "string option \<Rightarrow> bool" where
  "str_bool s = (case s of None \<Rightarrow> False | Some t \<Rightarrow> t \<noteq> [])"

definition price_bool :: "pyfloat option \<Rightarrow> bool" where
  "price_bool p = (case p of None \<Rightarrow> False | Some x \<Rightarrow> float_bool x)"

definition price_val :: "pyfloat option \<Rightarrow> pyval" where
  "price_val p = (case p of None \<Rightarrow> PNone | Some x \<Rightarrow> PFloat x)"

definition print_order_summary ::
  "env \<Rightarrow> string \<Rightarrow> string \<Rightarrow> string \<Rightarrow> pyfloat \<Rightarrow> pyfloat option
     \<Rightarrow> event list \<times> (exn + bool)" where
  "print_order_summary w symbol side order_type quantity price =
     (let ev = [Print (CHR 0x0A # '' ORDER SUMMARY:''),
                Print (replicate 40 CHR ''-''),
                Print (''   Symbol:       '' @ symbol),
                Print (''   Side:         '' @ side),
                Print (''   Order Type:   '' @ order_type),
                Print (''   Quantity:     '' @ float_str w quantity)]
               @ (if price_bool price
                  then [Print (''   Price:        $'' @ str_val (float_str w) (price_val price))]
                  else [])
               @ [Print (replicate 40 CHR ''-''),
                  Print (CHR 0x0A # ''  Confirm this order? (yes/no): '')]
      in case input_line w of
           Returns confirm \<Rightarrow> (ev, Inr (lower confirm = ''yes''))
         | Raises e \<Rightarrow> (ev, Inl e))"

definition print_order_result :: "env \<Rightarrow> pydict \<Rightarrow> event list" where
  "print_order_result w order_response =
     [Print (CHR 0x0A # '' ORDER PLACED SUCCESSFULLY!''),
      Print (replicate 50 CHR ''=''),
      Print (''   Order ID:     ''
             @ str_val (float_str w) (dict_get order_response ''orderId'' PNone)),
      Print (''   Status:       ''
             @ str_val (float_str w) (dict_get order_response ''status'' PNone)),
      Print (''   Executed Qty: ''
             @ str_val (float_str w) (dict_get order_response ''executedQty'' (PStr ''0''))),
      Print (''   Avg Price:    $''
             @ str_val (float_str w) (dict_get order_response ''avgPrice'' (PStr ''N/A''))),
      Print (replicate 50 CHR ''='')]
     @ (if dict_get order_response ''type'' PNone = PStr ''LIMIT''
        then [Print (CHR 0x0A # '' Your limit order is now active!''),
              Print ''   It will execute when the market reaches your price.'']
        else [Print (CHR 0x0A # '' Market order executed immediately!'')])"

text \<open>
  The parsed command line: four strings and the optional \<open>--price\<close>, which argparse has
  already converted to a float. \<open>main\<close> is modelled from the point where the arguments
  have been parsed.
\<close>

record args =
  symbol :: string
  side :: string
  order_type :: string
  quantity :: string
  price :: "pyfloat option"

text \<open>
  Step 1 of \<open>main\<close>, the body of the inner \<open>try\<close>: the four validators in order, then
  the check of the price for a LIMIT order. The validated order is the tuple of symbol,
  side, order type, quantity and price.
\<close>

type_synonym order = "string \<times> string \<times> string \<times> pyfloat \<times> pyfloat option"

definition validate_inputs :: "env \<Rightarrow> args \<Rightarrow> event list \<times> (exn + order)" where
  "validate_inputs w a =
     (case validate_symbol (symbol a) of Inl e \<Rightarrow> ([], Inl e) | Inr symbol' \<Rightarrow>
      case validate_side (side a) of Inl e \<Rightarrow> ([], Inl e) | Inr side' \<Rightarrow>
      case validate_order_type (order_type a) of Inl e \<Rightarrow> ([], Inl e) | Inr order_type' \<Rightarrow>
      case validate_quantity (float_str w) (quantity a) of
        (out, Inl e) \<Rightarrow> (map Print out, Inl e)
      | (out, Inr quantity') \<Rightarrow>
          if order_type' = ''LIMIT''
          then if \<not> price_bool (price a)
               then (map Print out, Inl (ValueError '' Price is required for LIMIT orders!''))
               else (case validate_price (str_val (float_str w) (price_val (price a))) of
                       Inl e \<Rightarrow> (map Print out, Inl e)
                     | Inr price' \<Rightarrow>
                         (map Print out,
                          Inr (symbol', side', order_type', quantity', Some price')))
          else (map Print out, Inr (symbol', side', order_type', quantity', None)))"

text \<open>Step 5 and 6 of \<open>main\<close>: the \<open>try\<close> that places the order and reports it.\<close>

definition place_order :: "env \<Rightarrow> order \<Rightarrow> event list \<times> (exn + int)" where
  "place_order w ord =
     (case ord of (symbol', side', order_type', quantity', price') \<Rightarrow>
        (case (if order_type' = ''MARKET''
               then place_market_order w symbol' side' quantity'
               else place_limit_order w symbol' side' quantity' (price_val price')) of
           (ev, Inr response) \<Rightarrow>
             (ev @ print_order_result w response
                 @ [LogInfo (''Order ''
                              @ str_val (float_str w) (dict_get response ''orderId'' PNone)
                              @ '' placed successfully'')],
              Inr 0)
         | (ev, Inl KeyboardInterrupt) \<Rightarrow> (ev, Inl KeyboardInterrupt)
         | (ev, Inl e) \<Rightarrow>
             (ev @ [Print (CHR 0x0A # '' Failed to place order: '' @ str_exn e),
                    LogError (''Order placement failed: '' @ str_exn e)],
              Inr 1)))"

text \<open>The body of the outer \<open>try\<close> of \<open>main\<close>: it returns an exit code or raises.\<close>

definition main_try :: "env \<Rightarrow> args \<Rightarrow> event list \<times> (exn + int)" where
  "main_try w a =
     (let ev1 = [LogInfo ''Starting order placement process...'',
                 Print (CHR 0x0A # '' Validating inputs...'')]
      in case validate_inputs w a of
           (evv, Inl (ValueError m)) \<Rightarrow>
             (ev1 @ evv @ [LogError (''Input validation failed: '' @ m),
                           Print (CHR 0x0A # '' Error: '' @ m),
                           Print (CHR 0x0A # '' Tip: Use --help to see examples'')],
              Inr 1)
         | (evv, Inl e) \<Rightarrow> (ev1 @ evv, Inl e)
         | (evv, Inr ord) \<Rightarrow>
             (let ev2 = ev1 @ evv @ [Print '' All inputs validated successfully!''];
                  api_key = getenv w ''BINANCE_API_KEY'';
                  api_secret = getenv w ''BINANCE_API_SECRET''
              in if \<not> str_bool api_key \<or> \<not> str_bool api_secret
                 then (ev2 @ [Print (CHR 0x0A # '' API credentials not found!''),
                              Print ''   Please create a '.env' file with:'',
                              Print ''   BINANCE_API_KEY=your_key_here'',
                              Print ''   BINANCE_API_SECRET=your_secret_here'',
                              Print (CHR 0x0A # ''   See '.env.example' for an example.'')],
                       Inr 1)
                 else
                   (case ord of (symbol', side', order_type', quantity', price') \<Rightarrow>
                    case print_order_summary w symbol' side' order_type' quantity' price' of
                      (evs, Inl e) \<Rightarrow> (ev2 @ evs, Inl e)
                    | (evs, Inr False) \<Rightarrow>
                        (ev2 @ evs @ [Print (CHR 0x0A # '' Order cancelled by user.'')], Inr 0)
                    | (evs, Inr True) \<Rightarrow>
                        (let ev3 = ev2 @ evs @ [Print (CHR 0x0A # '' Connecting to Binance...'')]
                         in case BinanceFuturesClient w api_key api_secret of
                              (evc, Inl KeyboardInterrupt) \<Rightarrow> (ev3 @ evc, Inl KeyboardInterrupt)
                            | (evc, Inl e) \<Rightarrow>
                                (ev3 @ evc
                                 @ [Print (CHR 0x0A # '' Failed to connect to Binance: ''
                                           @ str_exn e),
                                    Print (CHR 0x0A
                                           # '' Check your API credentials and internet connection'')],
                                 Inr 1)
                            | (evc, Inr _) \<Rightarrow>
                                (let ev4 = ev3 @ evc
                                             @ [Print '' Connected to Binance Testnet!'',
                                                Print (CHR 0x0A # '' Placing '' @ order_type'
                                                       @ '' order...'')]
                                 in case place_order w ord of
                                      (evp, r) \<Rightarrow> (ev4 @ evp, r))))))"

text \<open>
  \<open>main\<close> from the outer \<open>try\<close> on, with its two handlers: the events and the exit
  code, given the arguments that \<open>parse_args\<close> returned. The whole of \<open>main()\<close>, with the
  call of \<open>parse_args\<close> before the \<open>try\<close>, is \<open>cli_main\<close> below.
\<close>

definition main :: "env \<Rightarrow> args \<Rightarrow> event list \<times> int" where
  "main w a =
     (case main_try w a of
        (ev, Inr code) \<Rightarrow> (ev, code)
      | (ev, Inl KeyboardInterrupt) \<Rightarrow>
          (ev @ [Print ([CHR 0x0A, CHR 0x0A] @ ''  Operation cancelled by user.'')], 0)
      | (ev, Inl e) \<Rightarrow>
          (ev @ [Print (CHR 0x0A # '' Unexpected error: '' @ str_exn e),
                 LogError (''Unexpected error in main: '' @ str_exn e)],
           1))"

text \<open>The calls to the exchange among the events of a run.\<close>

definition is_gateway_call :: "event \<Rightarrow> bool" where
  "is_gateway_call e =
     (case e of Connect _ _ _ \<Rightarrow> True | CreateOrder _ \<Rightarrow> True | GetOrder _ \<Rightarrow> True
      | _ \<Rightarrow> False)"

definition gateway_calls :: "event list \<Rightarrow> event list" where
  "gateway_calls ev = filter is_gateway_call ev"

definition orders_sent :: "event list \<Rightarrow> pydict list" where
  "orders_sent ev = concat (map (\<lambda>e. case e of CreateOrder k \<Rightarrow> [k] | _ \<Rightarrow> []) ev)"

text \<open>
  The function \<open>main()\<close> of the source as a whole, as \<open>sys.exit(main())\<close> runs it: the
  banner, then \<open>parser.parse_args()\<close>, then the part after it, which is \<open>main\<close> above.
  \<open>parse_args\<close> belongs to argparse, so what it does with a command line is a parameter:
  it returns the parsed arguments, or it ends the process with a status by raising
  \<open>SystemExit\<close> (status 0 after printing the help, status 2 after a usage error, which
  includes a \<open>--price\<close> that \<open>float\<close> rejects, since the option is declared with
  \<open>type=float\<close>). The call stands before the \<open>try\<close>, so nothing catches the
  \<open>SystemExit\<close> and its status is the exit code of the process. What argparse itself
  prints is not among the events.
\<close>

datatype parse_result = Parsed args | SystemExit int

definition print_banner :: "event list" where
  "print_banner =
     [Print (CHR 0x0A # replicate 60 CHR ''=''),
      Print ''           BINANCE FUTURES TRADING BOT'',
      Print ''                 (TESTNET MODE)'',
      Print (replicate 60 CHR ''='')]"

definition cli_main ::
  "(string list \<Rightarrow> parse_result) \<Rightarrow> env \<Rightarrow> string list \<Rightarrow> event list \<times> int" where
  "cli_main parse_args w argv =
     (case parse_args argv of
        SystemExit status \<Rightarrow> (print_banner, status)
      | Parsed a \<Rightarrow> (case main w a of (ev, code) \<Rightarrow> (print_banner @ ev, code)))"

section \<open>Example runs\<close>

text \<open>
  Concrete arguments and environments on which the program is run below: the text of
  the floats that occur, an environment with both credentials set whose prompt,
  connection and exchange behave as given, a reply of the exchange, and the arguments
  of a MARKET and of a LIMIT order.
\<close>

definition example_float_str :: "pyfloat \<Rightarrow> string" where
  "example_float_str x =
     (if x = Fin 2500 then ''2500.0''
      else if x = Fin (3602879701896397 / 36028797018963968) then ''0.1''
      else if x = min_quantity then ''0.001''
      else if x = Fin (7378697629483821 / 73786976294838206464) then ''0.0001''
      else ''0.0'')"

definition example_env :: "string outcome \<Rightarrow> unit outcome \<Rightarrow> pydict outcome \<Rightarrow> env" where
  "example_env answer connection reply =
     \<lparr>float_str = example_float_str,
      getenv = (\<lambda>name. if name = ''BINANCE_API_KEY'' then Some ''key''
                       else if name = ''BINANCE_API_SECRET'' then Some ''secret'' else None),
      input_line = answer,
      Client = (\<lambda>k s t. connection),
      futures_create_order = (\<lambda>kwargs. reply),
      futures_get_order = (\<lambda>kwargs. reply)\<rparr>"

definition example_reply :: pydict where
  "example_reply = [(''orderId'', PInt 12345), (''status'', PStr ''NEW''),
                    (''executedQty'', PStr ''0''), (''avgPrice'', PStr ''0.0''),
                    (''type'', PStr ''LIMIT'')]"

definition market_args :: args where
  "market_args = \<lparr>symbol = ''BTCUSDT'', side = ''BUY'', order_type = ''MARKET'',
                   quantity = ''0.001'', price = None\<rparr>"

definition limit_args :: "pyfloat option \<Rightarrow> args" where
  "limit_args p = \<lparr>symbol = ''ETHUSDT'', side = ''SELL'', order_type = ''LIMIT'',
                    quantity = ''0.1'', price = p\<rparr>"

text \<open>
  What argparse does on the command lines of the examples: a lone \<open>--help\<close> ends the
  process with status 0; four words are the four positional arguments; four words
  followed by \<open>--price\<close> and a value give the price that \<open>float\<close> reads from the
  value, and status 2 when \<open>float\<close> rejects it. This holds when none of the words and
  values begins with a dash. Lines of any other shape are not used below and are
  given status 2 here.
\<close>

definition no_dash :: "string \<Rightarrow> bool" where
  "no_dash t = (case t of [] \<Rightarrow> True | c # r \<Rightarrow> c \<noteq> CHR ''-'')"

definition example_parse_args :: "string list \<Rightarrow> parse_result" where
  "example_parse_args argv =
     (if argv = [''--help''] then SystemExit 0
      else case argv of
        [s, sd, ot, q] \<Rightarrow>
          if list_all no_dash [s, sd, ot, q]
          then Parsed \<lparr>symbol = s, side = sd, order_type = ot, quantity = q, price = None\<rparr>
          else SystemExit 2
      | [s, sd, ot, q, opt, v] \<Rightarrow>
          if list_all no_dash [s, sd, ot, q, v] \<and> opt = ''--price''
          then (case py_float v of
                  Some x \<Rightarrow> Parsed \<lparr>symbol = s, side = sd, order_type = ot, quantity = q,
                                     price = Some x\<rparr>
                | None \<Rightarrow> SystemExit 2)
          else SystemExit 2
      | _ \<Rightarrow> SystemExit 2)"

text \<open>Whether a text occurs inside another one, to speak about what a message names.\<close>

fun contains :: "string \<Rightarrow> string \<Rightarrow> bool" where
  "contains [] sub = (sub = [])"
| "contains (c # s) sub = (take (length sub) (c # s) = sub \<or> contains s sub)"

section \<open>Properties of the string operations\<close>

lemma upper_char_class: "symbol_class c \<Longrightarrow> upper_char c = c"
  by (auto simp: symbol_class_def upper_char_def)

lemma upper_fixed: "list_all symbol_class s \<Longrightarrow> upper s = s"
  by (induction s) (simp_all add: upper_def upper_char_class)

lemma class_not_space: "symbol_class c \<Longrightarrow> \<not> is_space c"
  by (auto simp: symbol_class_def is_space_def whitespace_def)

lemma lstrip_fixed: "s \<noteq> [] \<Longrightarrow> \<not> is_space (hd s) \<Longrightarrow> lstrip s = s"
  by (cases s) (simp_all add: lstrip_def)

lemma rstrip_fixed: "s \<noteq> [] \<Longrightarrow> \<not> is_space (last s) \<Longrightarrow> rstrip s = s"
  by (cases s rule: rev_cases) (simp_all add: rstrip_def)

lemma strip_fixed:
  "s \<noteq> [] \<Longrightarrow> \<not> is_space (hd s) \<Longrightarrow> \<not> is_space (last s) \<Longrightarrow> strip s = s"
  by (simp add: strip_def lstrip_fixed rstrip_fixed)

lemma rstrip_last: "rstrip s \<noteq> [] \<Longrightarrow> \<not> is_space (last (rstrip s))"
proof -
  assume ne: "rstrip s \<noteq> []"
  then have "dropWhile is_space (rev s) \<noteq> []"
    by (simp add: rstrip_def)
  then have "\<not> is_space (hd (dropWhile is_space (rev s)))"
    by (rule hd_dropWhile)
  with ne show ?thesis
    by (simp add: rstrip_def last_rev)
qed

lemma strip_last: "strip s \<noteq> [] \<Longrightarrow> \<not> is_space (last (strip s))"
  unfolding strip_def by (rule rstrip_last)

lemma strip_no_final_newline: "strip s \<noteq> [] \<Longrightarrow> last (strip s) \<noteq> CHR 0x0A"
proof
  assume "strip s \<noteq> []" and "last (strip s) = CHR 0x0A"
  then have "\<not> is_space (CHR 0x0A)"
    using strip_last [of s] by simp
  then show False
    by (simp add: is_space_def whitespace_def)
qed

lemma re_match_strip: "re_match_symbol (strip s) = symbol_body (strip s)"
  using strip_no_final_newline [of s] by (auto simp: re_match_symbol_def)

lemma symbol_body_strip_fixed:
  assumes "symbol_body s"
  shows "strip s = s"
proof -
  from assms have ne: "s \<noteq> []" and all: "list_all symbol_class s"
    by (auto simp: symbol_body_def)
  from ne all have "symbol_class (hd s)" "symbol_class (last s)"
    by (auto simp: list_all_iff)
  then show ?thesis
    using ne by (simp add: strip_fixed class_not_space)
qed

section \<open>The symbol validator accepts exactly the well-formed symbols\<close>

text \<open>
  C4. A string whose upper-cased and trimmed form has 5 to 12 characters, all of them
  capital letters or digits, is accepted and that form is returned; every other string
  is rejected with a ValueError.
\<close>

theorem validate_symbol_accepts_exactly:
  "validate_symbol raw =
     (if 5 \<le> length (strip (upper raw)) \<and> length (strip (upper raw)) \<le> 12
         \<and> (\<forall>c \<in> set (strip (upper raw)). c \<in> set ''ABCDEFGHIJKLMNOPQRSTUVWXYZ0123456789'')
      then Inr (strip (upper raw))
      else Inl (ValueError (''Invalid symbol: '' @ strip (upper raw)
                  @ ''. Must be like 'BTCUSDT', 'ETHUSDT'' @ [CHR 0x27])))"
  unfolding validate_symbol_def Let_def re_match_strip
  by (simp add: symbol_body_def list_all_iff symbol_class_def)

theorem validate_symbol_accepts_exactly_witness:
  "validate_symbol ''  btcusdt '' = Inr ''BTCUSDT''
   \<and> validate_symbol ''BTC-USD'' =
       Inl (ValueError (''Invalid symbol: BTC-USD. Must be like 'BTCUSDT', 'ETHUSDT'' @ [CHR 0x27]))"
  by (simp add: validate_symbol_accepts_exactly [of "''  btcusdt ''"]
      validate_symbol_accepts_exactly [of "''BTC-USD''"]
      strip_def lstrip_def rstrip_def upper_def upper_char_def char_of_eq_iff
      is_space_def whitespace_def)

lemmas str_eval = strip_def lstrip_def rstrip_def upper_def lower_def upper_char_def
  lower_char_def char_of_eq_iff is_space_def whitespace_def

subsection \<open>What the three validators return\<close>

lemma validate_symbol_Inr:
  "validate_symbol x = Inr y \<Longrightarrow> symbol_body y \<and> y = strip (upper x)"
  by (auto simp: validate_symbol_def Let_def re_match_strip split: if_splits)

lemma validate_symbol_fixed: "symbol_body y \<Longrightarrow> validate_symbol y = Inr y"
  by (simp add: validate_symbol_def Let_def symbol_body_strip_fixed upper_fixed
      re_match_symbol_def symbol_body_def)

lemma validate_side_Inr: "validate_side x = Inr y \<Longrightarrow> y = ''BUY'' \<or> y = ''SELL''"
  by (auto simp: validate_side_def Let_def split: if_splits)

lemma validate_side_fixed:
  "validate_side ''BUY'' = Inr ''BUY''" "validate_side ''SELL'' = Inr ''SELL''"
  by (simp_all add: validate_side_def str_eval)

lemma validate_order_type_Inr:
  "validate_order_type x = Inr y \<Longrightarrow> y = ''MARKET'' \<or> y = ''LIMIT''"
  by (auto simp: validate_order_type_def Let_def split: if_splits)

lemma validate_order_type_fixed:
  "validate_order_type ''MARKET'' = Inr ''MARKET''"
  "validate_order_type ''LIMIT'' = Inr ''LIMIT''"
  by (simp_all add: validate_order_type_def str_eval)

section \<open>The validators of the enumerated fields are idempotent\<close>

text \<open>
  C9. Whatever \<open>validate_symbol\<close>, \<open>validate_side\<close> or \<open>validate_order_type\<close> returns is
  returned unchanged when the same validator is applied to it again.
\<close>

theorem validators_idempotent:
  "(validate_symbol x = Inr y \<longrightarrow> validate_symbol y = Inr y)
   \<and> (validate_side x = Inr y \<longrightarrow> validate_side y = Inr y)
   \<and> (validate_order_type x = Inr y \<longrightarrow> validate_order_type y = Inr y)"
proof (intro conjI impI)
  assume "validate_symbol x = Inr y"
  then have "symbol_body y"
    by (simp add: validate_symbol_Inr)
  then show "validate_symbol y = Inr y"
    by (rule validate_symbol_fixed)
next
  assume "validate_side x = Inr y"
  then have "y = ''BUY'' \<or> y = ''SELL''"
    by (rule validate_side_Inr)
  then show "validate_side y = Inr y"
    using validate_side_fixed by blast
next
  assume "validate_order_type x = Inr y"
  then have "y = ''MARKET'' \<or> y = ''LIMIT''"
    by (rule validate_order_type_Inr)
  then show "validate_order_type y = Inr y"
    using validate_order_type_fixed by blast
qed

lemma validate_symbol_btcusdt: "validate_symbol ''btcusdt '' = Inr ''BTCUSDT''"
  by (simp add: validate_symbol_def re_match_symbol_def symbol_body_def symbol_class_def str_eval)

lemma validate_side_sell: "validate_side '' sell '' = Inr ''SELL''"
  by (simp add: validate_side_def str_eval)

lemma validate_order_type_limit: "validate_order_type ''Limit'' = Inr ''LIMIT''"
  by (simp add: validate_order_type_def str_eval)

theorem validators_idempotent_witness:
  "validate_symbol ''btcusdt '' = Inr ''BTCUSDT'' \<and> validate_symbol ''BTCUSDT'' = Inr ''BTCUSDT''
   \<and> validate_side '' sell '' = Inr ''SELL'' \<and> validate_side ''SELL'' = Inr ''SELL''
   \<and> validate_order_type ''Limit'' = Inr ''LIMIT''
   \<and> validate_order_type ''LIMIT'' = Inr ''LIMIT''"
  using validators_idempotent [of "''btcusdt ''" "''BTCUSDT''"]
    validators_idempotent [of "'' sell ''" "''SELL''"]
    validators_idempotent [of "''Limit''" "''LIMIT''"]
    validate_symbol_btcusdt validate_side_sell validate_order_type_limit
  by blast


section \<open>The validators of the numeric fields\<close>

lemma validate_quantity_cases:
  "validate_quantity fs raw =
     (case py_float raw of
        None \<Rightarrow> ([], Inl (ValueError (''Invalid quantity: '' @ raw @ ''. Must be a positive number'')))
      | Some q \<Rightarrow>
          if float_le q (Fin 0)
          then ([], Inl (ValueError (''Invalid quantity: '' @ raw @ ''. Must be a positive number'')))
          else (if float_lt q min_quantity
                then [''Warning: Quantity '' @ fs q @ '' might be too small for some symbols'']
                else [], Inr q))"
  by (simp add: validate_quantity_def validate_quantity_try_def split: option.splits)

lemma validate_price_cases:
  "validate_price raw =
     (case py_float raw of
        None \<Rightarrow> Inl (ValueError (''Invalid price: '' @ raw @ ''. Must be a positive number''))
      | Some p \<Rightarrow>
          if float_le p (Fin 0)
          then Inl (ValueError (''Invalid price: '' @ raw @ ''. Must be a positive number''))
          else Inr p)"
  by (simp add: validate_price_def validate_price_try_def split: option.splits)

lemma py_float_nan: "py_float ''nan'' = Some NaN"
  by code_simp

lemma py_float_abc: "py_float ''abc'' = None"
  by code_simp

lemma py_float_0_0001: "py_float ''0.0001'' = Some (Fin (7378697629483821 / 73786976294838206464))"
  by code_simp

lemma py_float_0_001: "py_float ''0.001'' = Some min_quantity"
  unfolding min_quantity_def by code_simp

lemma py_float_0: "py_float ''0'' = Some (Fin 0)"
  by code_simp

lemma py_float_minus_1: "py_float ''-1'' = Some (Fin (- 1))"
  by code_simp

text \<open>
  C3. \<open>validate_quantity\<close> and \<open>validate_price\<close> are to reject every text that is not
  a number. On the text \<open>nan\<close> the conversion to a float succeeds, the test
  \<open>qty <= 0\<close> is false for a NaN, and both validators return the NaN: nothing is
  printed and no error is raised.
\<close>

theorem validate_quantity_accepts_nan:
  "validate_quantity fs ''nan'' = ([], Inr NaN) \<and> validate_price ''nan'' = Inr NaN"
  by (simp add: validate_quantity_cases validate_price_cases py_float_nan)

text \<open>
  Apart from that, the validators fail exactly when \<open>float\<close> rejects the text or the
  float is at most zero, and the warning of \<open>validate_quantity\<close> never comes with an
  error.
\<close>

lemma validate_quantity_fails_iff:
  "(\<exists>e. snd (validate_quantity fs raw) = Inl e) \<longleftrightarrow>
     (case py_float raw of None \<Rightarrow> True | Some q \<Rightarrow> float_le q (Fin 0))"
  by (simp add: validate_quantity_cases split: option.splits)

lemma validate_price_fails_iff:
  "(\<exists>e. validate_price raw = Inl e) \<longleftrightarrow>
     (case py_float raw of None \<Rightarrow> True | Some q \<Rightarrow> float_le q (Fin 0))"
  by (simp add: validate_price_cases split: option.splits)

lemma validate_quantity_warning_not_fatal:
  "fst (validate_quantity fs raw) \<noteq> [] \<Longrightarrow> \<exists>q. snd (validate_quantity fs raw) = Inr q"
  by (auto simp: validate_quantity_cases split: option.splits if_splits)

lemma validate_quantity_examples:
  "snd (validate_quantity fs ''0'') = Inl (ValueError ''Invalid quantity: 0. Must be a positive number'')"
  "snd (validate_quantity fs ''-1'') = Inl (ValueError ''Invalid quantity: -1. Must be a positive number'')"
  "snd (validate_quantity fs ''abc'') = Inl (ValueError ''Invalid quantity: abc. Must be a positive number'')"
  "validate_quantity fs ''0.001'' = ([], Inr min_quantity)"
  "validate_quantity fs ''0.0001'' =
     ([''Warning: Quantity '' @ fs (Fin (7378697629483821 / 73786976294838206464))
         @ '' might be too small for some symbols''],
      Inr (Fin (7378697629483821 / 73786976294838206464)))"
  by (simp_all add: validate_quantity_cases py_float_0 py_float_minus_1 py_float_abc
      py_float_0_001 py_float_0_0001 min_quantity_def)

section \<open>The messages of the validators\<close>

text \<open>
  C8, as stated. The message of a rejected symbol does not name the text the user
  supplied: for \<open>btc\<close> it names \<open>BTC\<close>. And \<open>validate_quantity\<close> writes to the
  console: for \<open>0.0001\<close> it prints its warning.
\<close>

theorem validate_symbol_message_counterexample:
  "validate_symbol ''btc'' =
     Inl (ValueError (''Invalid symbol: BTC. Must be like 'BTCUSDT', 'ETHUSDT'' @ [CHR 0x27]))
   \<and> \<not> contains (''Invalid symbol: BTC. Must be like 'BTCUSDT', 'ETHUSDT'' @ [CHR 0x27]) ''btc''
   \<and> fst (validate_quantity example_float_str ''0.0001'') =
       [''Warning: Quantity 0.0001 might be too small for some symbols'']"
  by (simp add: validate_symbol_def re_match_symbol_def symbol_body_def str_eval
      validate_quantity_examples example_float_str_def min_quantity_def)

text \<open>
  C8, amended. Every error of a validator is a ValueError whose message names the
  field, a value and the expected format; the value is the upper-cased and
  trimmed text for symbol, side and order type, and the text as passed in for quantity
  and price. The validators of symbol, side, order type and price are pure functions;
  \<open>validate_quantity\<close> prints one line, the warning, exactly when the quantity is accepted
  and below 0.001, and nothing otherwise.
\<close>

theorem validator_messages:
  "(validate_symbol raw = Inl e \<longrightarrow>
      e = ValueError (''Invalid symbol: '' @ strip (upper raw)
            @ ''. Must be like 'BTCUSDT', 'ETHUSDT'' @ [CHR 0x27]))
   \<and> (validate_side raw = Inl e \<longrightarrow>
      e = ValueError (''Invalid side: '' @ strip (upper raw)
            @ ''. Must be 'BUY' or 'SELL'' @ [CHR 0x27]))
   \<and> (validate_order_type raw = Inl e \<longrightarrow>
      e = ValueError (''Invalid order type: '' @ strip (upper raw)
            @ ''. Must be 'MARKET' or 'LIMIT'' @ [CHR 0x27]))
   \<and> (snd (validate_quantity fs raw) = Inl e \<longrightarrow>
      e = ValueError (''Invalid quantity: '' @ raw @ ''. Must be a positive number''))
   \<and> (validate_price raw = Inl e \<longrightarrow>
      e = ValueError (''Invalid price: '' @ raw @ ''. Must be a positive number''))
   \<and> fst (validate_quantity fs raw) =
       (case py_float raw of
          None \<Rightarrow> []
        | Some q \<Rightarrow>
            if \<not> float_le q (Fin 0) \<and> float_lt q min_quantity
            then [''Warning: Quantity '' @ fs q @ '' might be too small for some symbols'']
            else [])"
proof (intro conjI impI)
  assume "validate_symbol raw = Inl e"
  then show "e = ValueError (''Invalid symbol: '' @ strip (upper raw)
            @ ''. Must be like 'BTCUSDT', 'ETHUSDT'' @ [CHR 0x27])"
    by (simp add: validate_symbol_def Let_def split: if_splits)
next
  assume "validate_side raw = Inl e"
  then show "e = ValueError (''Invalid side: '' @ strip (upper raw)
            @ ''. Must be 'BUY' or 'SELL'' @ [CHR 0x27])"
    by (simp add: validate_side_def Let_def split: if_splits)
next
  assume "validate_order_type raw = Inl e"
  then show "e = ValueError (''Invalid order type: '' @ strip (upper raw)
            @ ''. Must be 'MARKET' or 'LIMIT'' @ [CHR 0x27])"
    by (simp add: validate_order_type_def Let_def split: if_splits)
next
  assume "snd (validate_quantity fs raw) = Inl e"
  then show "e = ValueError (''Invalid quantity: '' @ raw @ ''. Must be a positive number'')"
    by (auto simp: validate_quantity_cases split: option.splits if_splits)
next
  assume "validate_price raw = Inl e"
  then show "e = ValueError (''Invalid price: '' @ raw @ ''. Must be a positive number'')"
    by (auto simp: validate_price_cases split: option.splits if_splits)
next
  show "fst (validate_quantity fs raw) =
       (case py_float raw of
          None \<Rightarrow> []
        | Some q \<Rightarrow>
            if \<not> float_le q (Fin 0) \<and> float_lt q min_quantity
            then [''Warning: Quantity '' @ fs q @ '' might be too small for some symbols'']
            else [])"
    by (simp add: validate_quantity_cases split: option.splits)
qed

lemma validate_rejections:
  "validate_symbol ''btc'' =
     Inl (ValueError (''Invalid symbol: BTC. Must be like 'BTCUSDT', 'ETHUSDT'' @ [CHR 0x27]))"
  "validate_side ''hold'' =
     Inl (ValueError (''Invalid side: HOLD. Must be 'BUY' or 'SELL'' @ [CHR 0x27]))"
  "validate_order_type ''stop'' =
     Inl (ValueError (''Invalid order type: STOP. Must be 'MARKET' or 'LIMIT'' @ [CHR 0x27]))"
  "validate_price ''-1'' = Inl (ValueError ''Invalid price: -1. Must be a positive number'')"
  by (simp_all add: validate_symbol_def re_match_symbol_def symbol_body_def validate_side_def
      validate_order_type_def validate_price_cases py_float_minus_1 str_eval)

theorem validator_messages_witness:
  "validate_symbol ''btc'' =
     Inl (ValueError (''Invalid symbol: BTC. Must be like 'BTCUSDT', 'ETHUSDT'' @ [CHR 0x27]))
   \<and> ValueError (''Invalid symbol: BTC. Must be like 'BTCUSDT', 'ETHUSDT'' @ [CHR 0x27]) =
       ValueError (''Invalid symbol: '' @ strip (upper ''btc'')
            @ ''. Must be like 'BTCUSDT', 'ETHUSDT'' @ [CHR 0x27])
   \<and> validate_side ''hold'' =
       Inl (ValueError (''Invalid side: HOLD. Must be 'BUY' or 'SELL'' @ [CHR 0x27]))
   \<and> ValueError (''Invalid side: HOLD. Must be 'BUY' or 'SELL'' @ [CHR 0x27]) =
       ValueError (''Invalid side: '' @ strip (upper ''hold'')
            @ ''. Must be 'BUY' or 'SELL'' @ [CHR 0x27])
   \<and> validate_order_type ''stop'' =
       Inl (ValueError (''Invalid order type: STOP. Must be 'MARKET' or 'LIMIT'' @ [CHR 0x27]))
   \<and> ValueError (''Invalid order type: STOP. Must be 'MARKET' or 'LIMIT'' @ [CHR 0x27]) =
       ValueError (''Invalid order type: '' @ strip (upper ''stop'')
            @ ''. Must be 'MARKET' or 'LIMIT'' @ [CHR 0x27])
   \<and> snd (validate_quantity (\<lambda>x. ''0.0001'') ''abc'') =
       Inl (ValueError ''Invalid quantity: abc. Must be a positive number'')
   \<and> fst (validate_quantity (\<lambda>x. ''0.0001'') ''abc'') = []
   \<and> validate_price ''-1'' = Inl (ValueError ''Invalid price: -1. Must be a positive number'')
   \<and> fst (validate_quantity (\<lambda>x. ''0.0001'') ''0.0001'') =
       [''Warning: Quantity 0.0001 might be too small for some symbols'']"
proof -
  note a = validator_messages [of "''btc''"
      "ValueError (''Invalid symbol: BTC. Must be like 'BTCUSDT', 'ETHUSDT'' @ [CHR 0x27])"
      "\<lambda>x. ''0.0001''"]
  note b = validator_messages [of "''hold''"
      "ValueError (''Invalid side: HOLD. Must be 'BUY' or 'SELL'' @ [CHR 0x27])"
      "\<lambda>x. ''0.0001''"]
  note c = validator_messages [of "''stop''"
      "ValueError (''Invalid order type: STOP. Must be 'MARKET' or 'LIMIT'' @ [CHR 0x27])"
      "\<lambda>x. ''0.0001''"]
  note d = validator_messages [of "''abc''"
      "ValueError ''Invalid quantity: abc. Must be a positive number''" "\<lambda>x. ''0.0001''"]
  note e = validator_messages [of "''0.0001''" "ValueError []" "\<lambda>x. ''0.0001''"]
  have q: "snd (validate_quantity (\<lambda>x. ''0.0001'') ''abc'') =
       Inl (ValueError ''Invalid quantity: abc. Must be a positive number'')"
    by (simp add: validate_quantity_examples)
  have "validate_symbol ''btc'' =
     Inl (ValueError (''Invalid symbol: BTC. Must be like 'BTCUSDT', 'ETHUSDT'' @ [CHR 0x27]))
   \<and> ValueError (''Invalid symbol: BTC. Must be like 'BTCUSDT', 'ETHUSDT'' @ [CHR 0x27]) =
       ValueError (''Invalid symbol: '' @ strip (upper ''btc'')
            @ ''. Must be like 'BTCUSDT', 'ETHUSDT'' @ [CHR 0x27])"
    using a validate_rejections(1) by blast
  moreover have "validate_side ''hold'' =
       Inl (ValueError (''Invalid side: HOLD. Must be 'BUY' or 'SELL'' @ [CHR 0x27]))
   \<and> ValueError (''Invalid side: HOLD. Must be 'BUY' or 'SELL'' @ [CHR 0x27]) =
       ValueError (''Invalid side: '' @ strip (upper ''hold'')
            @ ''. Must be 'BUY' or 'SELL'' @ [CHR 0x27])"
    using b validate_rejections(2) by blast
  moreover have "validate_order_type ''stop'' =
       Inl (ValueError (''Invalid order type: STOP. Must be 'MARKET' or 'LIMIT'' @ [CHR 0x27]))
   \<and> ValueError (''Invalid order type: STOP. Must be 'MARKET' or 'LIMIT'' @ [CHR 0x27]) =
       ValueError (''Invalid order type: '' @ strip (upper ''stop'')
            @ ''. Must be 'MARKET' or 'LIMIT'' @ [CHR 0x27])"
    using c validate_rejections(3) by blast
  moreover have "fst (validate_quantity (\<lambda>x. ''0.0001'') ''abc'') = []"
    using d by (simp add: py_float_abc)
  moreover have "fst (validate_quantity (\<lambda>x. ''0.0001'') ''0.0001'') =
       [''Warning: Quantity 0.0001 might be too small for some symbols'']"
    using e by (simp add: py_float_0_0001 min_quantity_def)
  ultimately show ?thesis
    using q validate_rejections(4) by blast
qed


section \<open>The example runs, evaluated\<close>

lemma py_float_0_1: "py_float ''0.1'' = Some (Fin (3602879701896397 / 36028797018963968))"
  by code_simp

lemma py_float_2500: "py_float ''2500.0'' = Some (Fin 2500)"
  by code_simp

lemma py_float_0_0: "py_float ''0.0'' = Some (Fin 0)"
  by code_simp

lemma str_int_example: "str_int (- 2019) = ''-2019''"
  by code_simp

lemma example_getenv:
  "str_bool (getenv (example_env i c r) ''BINANCE_API_KEY'')"
  "str_bool (getenv (example_env i c r) ''BINANCE_API_SECRET'')"
  by (simp_all add: example_env_def str_bool_def)

lemma example_env_sel:
  "float_str (example_env i c r) = example_float_str"
  "input_line (example_env i c r) = i"
  "Client (example_env i c r) k s t = c"
  "futures_create_order (example_env i c r) kw = r"
  "futures_get_order (example_env i c r) kw = r"
  by (simp_all add: example_env_def)

lemma validate_ethusdt: "validate_symbol ''ETHUSDT'' = Inr ''ETHUSDT''"
  by (simp add: validate_symbol_fixed symbol_body_def symbol_class_def)

lemma validate_btcusdt: "validate_symbol ''BTCUSDT'' = Inr ''BTCUSDT''"
  by (simp add: validate_symbol_fixed symbol_body_def symbol_class_def)

lemma validate_inputs_market:
  "validate_inputs w market_args = ([], Inr (''BTCUSDT'', ''BUY'', ''MARKET'', min_quantity, None))"
  by (simp add: validate_inputs_def market_args_def validate_btcusdt validate_side_fixed
      validate_order_type_fixed validate_quantity_examples)

lemma validate_inputs_market_with_price:
  "validate_inputs w (market_args\<lparr>price := Some (Fin 2500)\<rparr>) =
     ([], Inr (''BTCUSDT'', ''BUY'', ''MARKET'', min_quantity, None))"
  by (simp add: validate_inputs_def market_args_def validate_btcusdt validate_side_fixed
      validate_order_type_fixed validate_quantity_examples)

lemma validate_quantity_0_1:
  "validate_quantity fs ''0.1'' = ([], Inr (Fin (3602879701896397 / 36028797018963968)))"
  by (simp add: validate_quantity_cases py_float_0_1 min_quantity_def)

lemma validate_inputs_limit_none:
  "validate_inputs w (limit_args None) =
     ([], Inl (ValueError '' Price is required for LIMIT orders!''))"
  by (simp add: validate_inputs_def limit_args_def validate_ethusdt validate_side_fixed
      validate_order_type_fixed validate_quantity_0_1 price_bool_def)

lemma validate_inputs_limit_zero:
  "validate_inputs w (limit_args (Some (Fin 0))) =
     ([], Inl (ValueError '' Price is required for LIMIT orders!''))"
  by (simp add: validate_inputs_def limit_args_def validate_ethusdt validate_side_fixed
      validate_order_type_fixed validate_quantity_0_1 price_bool_def)

lemma validate_inputs_limit_2500:
  "validate_inputs (example_env i c r) (limit_args (Some (Fin 2500))) =
     ([], Inr (''ETHUSDT'', ''SELL'', ''LIMIT'', Fin (3602879701896397 / 36028797018963968),
               Some (Fin 2500)))"
  by (simp add: validate_inputs_def limit_args_def validate_ethusdt validate_side_fixed
      validate_order_type_fixed validate_quantity_0_1 price_bool_def price_val_def str_val_def
      example_env_sel example_float_str_def min_quantity_def validate_price_cases py_float_2500)

lemma lower_examples:
  "lower ''yes'' = ''yes''" "lower ''YES'' = ''yes''" "lower ''Yes'' = ''yes''"
  "lower ''y'' \<noteq> ''yes''" "lower ''YES '' \<noteq> ''yes''" "lower [] \<noteq> ''yes''"
  "lower ''no'' \<noteq> ''yes''"
  by (simp_all add: str_eval)

section \<open>The gateway\<close>

lemma orders_sent_append: "orders_sent (xs @ ys) = orders_sent xs @ orders_sent ys"
  by (simp add: orders_sent_def)

lemma gateway_calls_append: "gateway_calls (xs @ ys) = gateway_calls xs @ gateway_calls ys"
  by (simp add: gateway_calls_def)

lemma place_market_order_events:
  "gateway_calls (fst (place_market_order w s sd q)) = [CreateOrder (market_order_kwargs s sd q)]"
  by (simp add: place_market_order_def Let_def gateway_calls_def is_gateway_call_def
      split: outcome.splits exn.splits)

lemma place_limit_order_events:
  "gateway_calls (fst (place_limit_order w s sd q p)) = [CreateOrder (limit_order_kwargs s sd q p)]"
  by (simp add: place_limit_order_def Let_def gateway_calls_def is_gateway_call_def
      split: outcome.splits exn.splits)

lemma place_market_order_result:
  "snd (place_market_order w s sd q) =
     (case futures_create_order w (market_order_kwargs s sd q) of
        Returns order \<Rightarrow> Inr order
      | Raises (BinanceAPIException code m) \<Rightarrow>
          Inl (Exception (''Binance API Error: '' @ m @ '' (Error code: '' @ str_int code @ '')''))
      | Raises KeyboardInterrupt \<Rightarrow> Inl KeyboardInterrupt
      | Raises e \<Rightarrow> Inl (Exception (''Unexpected error placing market order: '' @ str_exn e)))"
  by (simp add: place_market_order_def Let_def split: outcome.splits exn.splits)

lemma place_limit_order_result:
  "snd (place_limit_order w s sd q p) =
     (case futures_create_order w (limit_order_kwargs s sd q p) of
        Returns order \<Rightarrow> Inr order
      | Raises (BinanceAPIException code m) \<Rightarrow>
          Inl (Exception (''Binance API Error: '' @ m @ '' (Error code: '' @ str_int code @ '')''))
      | Raises KeyboardInterrupt \<Rightarrow> Inl KeyboardInterrupt
      | Raises e \<Rightarrow> Inl (Exception (''Unexpected error placing limit order: '' @ str_exn e)))"
  by (simp add: place_limit_order_def Let_def split: outcome.splits exn.splits)

text \<open>
  C5. Each of \<open>place_market_order\<close> and \<open>place_limit_order\<close> makes exactly one call to
  the exchange, the create-order call, whatever its outcome, so nothing is retried. A
  \<open>BinanceAPIException\<close> is turned into one exception whose message carries the message
  and the code of the exchange, every other exception derived from \<open>Exception\<close> into
  one with a generic message, and an order that the exchange returns is returned.
\<close>

theorem place_order_one_call_no_retry:
  "gateway_calls (fst (place_market_order w s sd q)) = [CreateOrder (market_order_kwargs s sd q)]
   \<and> gateway_calls (fst (place_limit_order w s sd q p)) = [CreateOrder (limit_order_kwargs s sd q p)]
   \<and> (futures_create_order w (market_order_kwargs s sd q) = Raises (BinanceAPIException code m) \<longrightarrow>
        snd (place_market_order w s sd q) =
          Inl (Exception (''Binance API Error: '' @ m @ '' (Error code: '' @ str_int code @ '')'')))
   \<and> (futures_create_order w (limit_order_kwargs s sd q p) = Raises (BinanceAPIException code m) \<longrightarrow>
        snd (place_limit_order w s sd q p) =
          Inl (Exception (''Binance API Error: '' @ m @ '' (Error code: '' @ str_int code @ '')'')))
   \<and> (futures_create_order w (market_order_kwargs s sd q) = Raises e \<and> e \<noteq> KeyboardInterrupt
        \<and> (\<forall>c t. e \<noteq> BinanceAPIException c t) \<longrightarrow>
        snd (place_market_order w s sd q) =
          Inl (Exception (''Unexpected error placing market order: '' @ str_exn e)))
   \<and> (futures_create_order w (limit_order_kwargs s sd q p) = Raises e \<and> e \<noteq> KeyboardInterrupt
        \<and> (\<forall>c t. e \<noteq> BinanceAPIException c t) \<longrightarrow>
        snd (place_limit_order w s sd q p) =
          Inl (Exception (''Unexpected error placing limit order: '' @ str_exn e)))
   \<and> (futures_create_order w (market_order_kwargs s sd q) = Returns r \<longrightarrow>
        snd (place_market_order w s sd q) = Inr r)
   \<and> (futures_create_order w (limit_order_kwargs s sd q p) = Returns r \<longrightarrow>
        snd (place_limit_order w s sd q p) = Inr r)"
  by (auto simp: place_market_order_events place_limit_order_events place_market_order_result
      place_limit_order_result split: exn.splits)


theorem place_order_one_call_no_retry_witness:
  "snd (place_market_order
          (example_env (Returns ''yes'') (Returns ())
             (Raises (BinanceAPIException (- 2019) ''Margin is insufficient.'')))
          ''BTCUSDT'' ''BUY'' min_quantity) =
     Inl (Exception ''Binance API Error: Margin is insufficient. (Error code: -2019)'')
   \<and> snd (place_limit_order
          (example_env (Returns ''yes'') (Returns ())
             (Raises (BinanceAPIException (- 2019) ''Margin is insufficient.'')))
          ''ETHUSDT'' ''SELL'' (Fin 1) (PFloat (Fin 2500))) =
     Inl (Exception ''Binance API Error: Margin is insufficient. (Error code: -2019)'')
   \<and> snd (place_market_order
          (example_env (Returns ''yes'') (Returns ()) (Raises (Exception ''timed out'')))
          ''BTCUSDT'' ''BUY'' min_quantity) =
     Inl (Exception ''Unexpected error placing market order: timed out'')
   \<and> snd (place_limit_order
          (example_env (Returns ''yes'') (Returns ()) (Raises (Exception ''timed out'')))
          ''ETHUSDT'' ''SELL'' (Fin 1) (PFloat (Fin 2500))) =
     Inl (Exception ''Unexpected error placing limit order: timed out'')
   \<and> snd (place_market_order
          (example_env (Returns ''yes'') (Returns ()) (Returns example_reply))
          ''BTCUSDT'' ''BUY'' min_quantity) = Inr example_reply
   \<and> snd (place_limit_order
          (example_env (Returns ''yes'') (Returns ()) (Returns example_reply))
          ''ETHUSDT'' ''SELL'' (Fin 1) (PFloat (Fin 2500))) = Inr example_reply"
proof -
  note a = place_order_one_call_no_retry
    [where w = "example_env (Returns ''yes'') (Returns ())
           (Raises (BinanceAPIException (- 2019) ''Margin is insufficient.''))"
       and s = "''BTCUSDT''" and sd = "''BUY''" and q = min_quantity
       and code = "- 2019" and m = "''Margin is insufficient.''"]
  note b = place_order_one_call_no_retry
    [where w = "example_env (Returns ''yes'') (Returns ())
           (Raises (BinanceAPIException (- 2019) ''Margin is insufficient.''))"
       and s = "''ETHUSDT''" and sd = "''SELL''" and q = "Fin 1" and p = "PFloat (Fin 2500)"
       and code = "- 2019" and m = "''Margin is insufficient.''"]
  note c = place_order_one_call_no_retry
    [where w = "example_env (Returns ''yes'') (Returns ()) (Raises (Exception ''timed out''))"
       and s = "''BTCUSDT''" and sd = "''BUY''" and q = min_quantity
       and e = "Exception ''timed out''"]
  note d = place_order_one_call_no_retry
    [where w = "example_env (Returns ''yes'') (Returns ()) (Raises (Exception ''timed out''))"
       and s = "''ETHUSDT''" and sd = "''SELL''" and q = "Fin 1" and p = "PFloat (Fin 2500)"
       and e = "Exception ''timed out''"]
  note e = place_order_one_call_no_retry
    [where w = "example_env (Returns ''yes'') (Returns ()) (Returns example_reply)"
       and s = "''BTCUSDT''" and sd = "''BUY''" and q = min_quantity and r = example_reply]
  note f = place_order_one_call_no_retry
    [where w = "example_env (Returns ''yes'') (Returns ()) (Returns example_reply)"
       and s = "''ETHUSDT''" and sd = "''SELL''" and q = "Fin 1" and p = "PFloat (Fin 2500)"
       and r = example_reply]
  from a b c d e f show ?thesis
    by (simp add: example_env_sel str_int_example str_exn_def)
qed

section \<open>The steps of \<open>main\<close>\<close>

lemma gateway_calls_simps:
  "gateway_calls [] = []"
  "gateway_calls (Print t # es) = gateway_calls es"
  "gateway_calls (LogInfo t # es) = gateway_calls es"
  "gateway_calls (LogError t # es) = gateway_calls es"
  "gateway_calls (Connect k sc b # es) = Connect k sc b # gateway_calls es"
  "gateway_calls (CreateOrder d # es) = CreateOrder d # gateway_calls es"
  "gateway_calls (GetOrder d # es) = GetOrder d # gateway_calls es"
  "gateway_calls (map Print out) = []"
  by (simp_all add: gateway_calls_def is_gateway_call_def)

lemma orders_sent_simps:
  "orders_sent [] = []"
  "orders_sent (Print t # es) = orders_sent es"
  "orders_sent (LogInfo t # es) = orders_sent es"
  "orders_sent (LogError t # es) = orders_sent es"
  "orders_sent (Connect k sc b # es) = orders_sent es"
  "orders_sent (CreateOrder d # es) = d # orders_sent es"
  "orders_sent (GetOrder d # es) = orders_sent es"
  by (simp_all add: orders_sent_def)

lemma orders_sent_map_Print: "orders_sent (map Print out) = []"
  by (induction out) (simp_all add: orders_sent_simps)

lemma validate_inputs_events:
  "gateway_calls (fst (validate_inputs w a)) = []" "orders_sent (fst (validate_inputs w a)) = []"
  by (simp_all add: validate_inputs_def gateway_calls_simps orders_sent_simps orders_sent_map_Print
      split: sum.splits prod.splits)

lemma validator_errors:
  "validate_symbol raw = Inl e \<Longrightarrow> \<exists>m. e = ValueError m"
  "validate_side raw = Inl e \<Longrightarrow> \<exists>m. e = ValueError m"
  "validate_order_type raw = Inl e \<Longrightarrow> \<exists>m. e = ValueError m"
  "validate_quantity fs raw = (out, Inl e) \<Longrightarrow> \<exists>m. e = ValueError m"
  "validate_price raw = Inl e \<Longrightarrow> \<exists>m. e = ValueError m"
  by (auto simp: validate_symbol_def validate_side_def validate_order_type_def Let_def
      validate_quantity_cases validate_price_cases split: if_splits option.splits)

lemma validate_inputs_error:
  assumes "snd (validate_inputs w a) = Inl e"
  shows "\<exists>m. e = ValueError m"
proof (cases "validate_symbol (symbol a)")
  case (Inl e1)
  with assms show ?thesis
    by (auto simp: validate_inputs_def dest: validator_errors(1))
next
  case s: (Inr s)
  show ?thesis
  proof (cases "validate_side (side a)")
    case (Inl e2)
    with assms s show ?thesis
      by (auto simp: validate_inputs_def dest: validator_errors(2))
  next
    case sd: (Inr sd)
    show ?thesis
    proof (cases "validate_order_type (order_type a)")
      case (Inl e3)
      with assms s sd show ?thesis
        by (auto simp: validate_inputs_def dest: validator_errors(3))
    next
      case ot: (Inr ot)
      obtain out r where q: "validate_quantity (float_str w) (quantity a) = (out, r)"
        by (cases "validate_quantity (float_str w) (quantity a)")
      show ?thesis
      proof (cases r)
        case (Inl e4)
        with assms s sd ot q show ?thesis
          by (auto simp: validate_inputs_def dest: validator_errors(4))
      next
        case (Inr qty)
        with assms s sd ot q show ?thesis
          by (auto simp: validate_inputs_def split: if_splits sum.splits
              dest: validator_errors(5))
      qed
    qed
  qed
qed

lemma validate_inputs_order:
  assumes "snd (validate_inputs w a) = Inr (s, sd, ot, q, p)"
  shows "(ot = ''MARKET'' \<and> p = None) \<or> (ot = ''LIMIT'' \<and> (\<exists>x. p = Some x))"
proof -
  from assms obtain ot' where ot: "validate_order_type (order_type a) = Inr ot'"
    by (auto simp: validate_inputs_def split: sum.splits)
  then have "ot' = ''MARKET'' \<or> ot' = ''LIMIT''"
    by (rule validate_order_type_Inr)
  with assms ot show ?thesis
    by (auto simp: validate_inputs_def split: sum.splits prod.splits if_splits)
qed

lemma print_order_summary_result:
  "snd (print_order_summary w s sd ot q p) =
     (case input_line w of Returns c \<Rightarrow> Inr (lower c = ''yes'') | Raises e \<Rightarrow> Inl e)"
  by (simp add: print_order_summary_def Let_def split: outcome.splits)

lemma print_order_summary_events:
  "gateway_calls (fst (print_order_summary w s sd ot q p)) = []"
  by (simp add: print_order_summary_def Let_def gateway_calls_simps gateway_calls_append
      split: outcome.splits)

lemma BinanceFuturesClient_result:
  "snd (BinanceFuturesClient w k sc) =
     (case Client w k sc True of Returns u \<Rightarrow> Inr () | Raises e \<Rightarrow> Inl e)"
  by (simp add: BinanceFuturesClient_def Let_def split: outcome.splits exn.splits)

lemma place_order_result:
  "snd (place_order w (s, sd, ot, q, p)) =
     (case futures_create_order w
             (if ot = ''MARKET'' then market_order_kwargs s sd q
              else limit_order_kwargs s sd q (price_val p)) of
        Returns r \<Rightarrow> Inr 0
      | Raises e \<Rightarrow> if e = KeyboardInterrupt then Inl KeyboardInterrupt else Inr 1)"
proof (cases "ot = ''MARKET''")
  case True
  then show ?thesis
    using place_market_order_result [of w s sd q]
    by (cases "place_market_order w s sd q")
       (auto simp: place_order_def split: outcome.splits exn.splits sum.splits)
next
  case False
  then show ?thesis
    using place_limit_order_result [of w s sd q "price_val p"]
    by (cases "place_limit_order w s sd q (price_val p)")
       (auto simp: place_order_def split: outcome.splits exn.splits sum.splits)
qed


lemma print_order_summary_pair:
  "print_order_summary w s sd ot q p = (ev, r) \<Longrightarrow>
     r = (case input_line w of Returns c \<Rightarrow> Inr (lower c = ''yes'') | Raises e \<Rightarrow> Inl e)
     \<and> gateway_calls ev = []"
  using print_order_summary_result [of w s sd ot q p] print_order_summary_events [of w s sd ot q p]
  by simp

lemma BinanceFuturesClient_pair:
  "BinanceFuturesClient w k sc = (ev, r) \<Longrightarrow>
     r = (case Client w k sc True of Returns u \<Rightarrow> Inr () | Raises e \<Rightarrow> Inl e)"
  using BinanceFuturesClient_result [of w k sc] by simp

lemma place_order_pair:
  "place_order w (s, sd, ot, q, p) = (ev, r) \<Longrightarrow>
     r = (case futures_create_order w
             (if ot = ''MARKET'' then market_order_kwargs s sd q
              else limit_order_kwargs s sd q (price_val p)) of
        Returns r \<Rightarrow> Inr 0
      | Raises e \<Rightarrow> if e = KeyboardInterrupt then Inl KeyboardInterrupt else Inr 1)"
  using place_order_result [of w s sd ot q p] by simp

lemma validate_inputs_pair:
  "validate_inputs w a = (ev, Inl e) \<Longrightarrow> \<exists>m. e = ValueError m"
  using validate_inputs_error [of w a e] by simp

lemma main_try_result:
  "snd (main_try w a) =
     (case snd (validate_inputs w a) of
        Inl e \<Rightarrow> Inr 1
      | Inr (s, sd, ot, q, p) \<Rightarrow>
          if \<not> str_bool (getenv w ''BINANCE_API_KEY'')
             \<or> \<not> str_bool (getenv w ''BINANCE_API_SECRET'')
          then Inr 1
          else (case input_line w of
                  Raises e \<Rightarrow> Inl e
                | Returns c \<Rightarrow>
                    if lower c \<noteq> ''yes'' then Inr 0
                    else (case Client w (getenv w ''BINANCE_API_KEY'')
                                 (getenv w ''BINANCE_API_SECRET'') True of
                            Raises e \<Rightarrow> if e = KeyboardInterrupt then Inl e else Inr 1
                          | Returns u \<Rightarrow>
                              (case futures_create_order w
                                      (if ot = ''MARKET'' then market_order_kwargs s sd q
                                       else limit_order_kwargs s sd q (price_val p)) of
                                 Returns r \<Rightarrow> Inr 0
                               | Raises e \<Rightarrow>
                                   if e = KeyboardInterrupt then Inl e else Inr 1))))"
proof -
  obtain evv rv where v: "validate_inputs w a = (evv, rv)"
    by (cases "validate_inputs w a")
  show ?thesis
  proof (cases rv)
    case (Inl e)
    with v obtain m where "e = ValueError m"
      using validate_inputs_pair by blast
    with v Inl show ?thesis
      by (simp add: main_try_def)
  next
    case (Inr ord)
    obtain s sd ot q p where ord: "ord = (s, sd, ot, q, p)"
      by (cases ord)
    obtain evs rs where ps: "print_order_summary w s sd ot q p = (evs, rs)"
      by (cases "print_order_summary w s sd ot q p")
    obtain evc rc where bc: "BinanceFuturesClient w (getenv w ''BINANCE_API_KEY'')
        (getenv w ''BINANCE_API_SECRET'') = (evc, rc)"
      by (cases "BinanceFuturesClient w (getenv w ''BINANCE_API_KEY'')
        (getenv w ''BINANCE_API_SECRET'')")
    obtain evp rp where po: "place_order w (s, sd, ot, q, p) = (evp, rp)"
      by (cases "place_order w (s, sd, ot, q, p)")
    note r = print_order_summary_pair [OF ps] BinanceFuturesClient_pair [OF bc]
      place_order_pair [OF po]
    from v Inr ord ps bc po r show ?thesis
      by (simp add: main_try_def Let_def split: outcome.splits exn.splits)
  qed
qed


lemma BinanceFuturesClient_events:
  "gateway_calls (fst (BinanceFuturesClient w k sc)) = [Connect k sc True]"
  by (simp add: BinanceFuturesClient_def Let_def gateway_calls_simps gateway_calls_append
      split: outcome.splits exn.splits)

lemma print_order_result_events: "gateway_calls (print_order_result w r) = []"
  by (simp add: print_order_result_def gateway_calls_simps gateway_calls_append)

lemma place_order_events:
  "gateway_calls (fst (place_order w (s, sd, ot, q, p))) =
     [CreateOrder (if ot = ''MARKET'' then market_order_kwargs s sd q
                   else limit_order_kwargs s sd q (price_val p))]"
proof (cases "ot = ''MARKET''")
  case True
  then show ?thesis
    using place_market_order_events [of w s sd q]
    by (cases "place_market_order w s sd q")
       (auto simp: place_order_def gateway_calls_append gateway_calls_simps
          print_order_result_events split: sum.splits exn.splits)
next
  case False
  then show ?thesis
    using place_limit_order_events [of w s sd q "price_val p"]
    by (cases "place_limit_order w s sd q (price_val p)")
       (auto simp: place_order_def gateway_calls_append gateway_calls_simps
          print_order_result_events split: sum.splits exn.splits)
qed

lemma main_try_calls:
  "gateway_calls (fst (main_try w a)) =
     (case snd (validate_inputs w a) of
        Inl e \<Rightarrow> []
      | Inr (s, sd, ot, q, p) \<Rightarrow>
          if \<not> str_bool (getenv w ''BINANCE_API_KEY'')
             \<or> \<not> str_bool (getenv w ''BINANCE_API_SECRET'')
          then []
          else (case input_line w of
                  Raises e \<Rightarrow> []
                | Returns c \<Rightarrow>
                    if lower c \<noteq> ''yes'' then []
                    else Connect (getenv w ''BINANCE_API_KEY'')
                           (getenv w ''BINANCE_API_SECRET'') True
                         # (case Client w (getenv w ''BINANCE_API_KEY'')
                                   (getenv w ''BINANCE_API_SECRET'') True of
                              Raises e \<Rightarrow> []
                            | Returns u \<Rightarrow>
                                [CreateOrder
                                   (if ot = ''MARKET'' then market_order_kwargs s sd q
                                    else limit_order_kwargs s sd q (price_val p))])))"
proof -
  obtain evv rv where v: "validate_inputs w a = (evv, rv)"
    by (cases "validate_inputs w a")
  have evv: "gateway_calls evv = []"
    using validate_inputs_events(1) [of w a] v by simp
  show ?thesis
  proof (cases rv)
    case (Inl e)
    with v obtain m where "e = ValueError m"
      using validate_inputs_pair by blast
    with v Inl evv show ?thesis
      by (simp add: main_try_def gateway_calls_append gateway_calls_simps)
  next
    case (Inr ord)
    obtain s sd ot q p where ord: "ord = (s, sd, ot, q, p)"
      by (cases ord)
    obtain evs rs where ps: "print_order_summary w s sd ot q p = (evs, rs)"
      by (cases "print_order_summary w s sd ot q p")
    obtain evc rc where bc: "BinanceFuturesClient w (getenv w ''BINANCE_API_KEY'')
        (getenv w ''BINANCE_API_SECRET'') = (evc, rc)"
      by (cases "BinanceFuturesClient w (getenv w ''BINANCE_API_KEY'')
        (getenv w ''BINANCE_API_SECRET'')")
    obtain evp rp where po: "place_order w (s, sd, ot, q, p) = (evp, rp)"
      by (cases "place_order w (s, sd, ot, q, p)")
    have evc: "gateway_calls evc = [Connect (getenv w ''BINANCE_API_KEY'')
        (getenv w ''BINANCE_API_SECRET'') True]"
      using BinanceFuturesClient_events [of w "getenv w ''BINANCE_API_KEY''"
          "getenv w ''BINANCE_API_SECRET''"] bc by simp
    have evp: "gateway_calls evp =
        [CreateOrder (if ot = ''MARKET'' then market_order_kwargs s sd q
                      else limit_order_kwargs s sd q (price_val p))]"
      using place_order_events [of w s sd ot q p] po by simp
    note r = print_order_summary_pair [OF ps] BinanceFuturesClient_pair [OF bc]
    from v Inr ord ps bc po r evv evc evp show ?thesis
      by (simp add: main_try_def Let_def gateway_calls_append gateway_calls_simps
          split: outcome.splits exn.splits)
  qed
qed

lemma main_calls: "gateway_calls (fst (main w a)) = gateway_calls (fst (main_try w a))"
  by (cases "main_try w a")
     (simp add: main_def gateway_calls_append gateway_calls_simps split: sum.splits exn.splits)

lemma main_result:
  "snd (main w a) =
     (case snd (main_try w a) of Inr code \<Rightarrow> code
      | Inl e \<Rightarrow> if e = KeyboardInterrupt then 0 else 1)"
  by (cases "main_try w a") (simp add: main_def split: sum.splits exn.splits)


lemma orders_sent_gateway_calls: "orders_sent (gateway_calls ev) = orders_sent ev"
proof (induction ev)
  case Nil
  show ?case by (simp add: gateway_calls_simps)
next
  case (Cons e ev)
  then show ?case
    by (cases e) (simp_all add: gateway_calls_simps orders_sent_simps)
qed

lemma main_orders_sent:
  "orders_sent (fst (main w a)) =
     (case snd (validate_inputs w a) of
        Inl e \<Rightarrow> []
      | Inr (s, sd, ot, q, p) \<Rightarrow>
          if \<not> str_bool (getenv w ''BINANCE_API_KEY'')
             \<or> \<not> str_bool (getenv w ''BINANCE_API_SECRET'')
          then []
          else (case input_line w of
                  Raises e \<Rightarrow> []
                | Returns c \<Rightarrow>
                    if lower c \<noteq> ''yes'' then []
                    else (case Client w (getenv w ''BINANCE_API_KEY'')
                                   (getenv w ''BINANCE_API_SECRET'') True of
                              Raises e \<Rightarrow> []
                            | Returns u \<Rightarrow>
                                [if ot = ''MARKET'' then market_order_kwargs s sd q
                                 else limit_order_kwargs s sd q (price_val p)])))"
proof -
  have "orders_sent (fst (main w a)) = orders_sent (gateway_calls (fst (main_try w a)))"
    by (simp add: orders_sent_gateway_calls flip: main_calls)
  then show ?thesis
    by (simp add: main_try_calls orders_sent_simps split: sum.splits outcome.splits)
qed

section \<open>Exit codes\<close>

text \<open>
  The exit code of the part of \<open>main()\<close> after \<open>parse_args\<close>, as a function of what
  happens. It is 1 when the validation fails and when a credential is missing.
  Otherwise the prompt is reached: an interrupt there gives 0, any other exception 1,
  and an answer other than yes gives 0. After a yes the connection is made: an
  interrupt gives 0, a failure 1. Then the order is sent: 0 when the exchange returns
  the order, 0 on an interrupt, 1 on a failure. When the answer is not yes, the run
  makes no call to the exchange library and sends no order.
\<close>

theorem main_exit_code:
  "snd (main w a) =
     (case snd (validate_inputs w a) of
        Inl e \<Rightarrow> 1
      | Inr (s, sd, ot, q, p) \<Rightarrow>
          if \<not> str_bool (getenv w ''BINANCE_API_KEY'')
             \<or> \<not> str_bool (getenv w ''BINANCE_API_SECRET'')
          then 1
          else (case input_line w of
                  Raises e \<Rightarrow> if e = KeyboardInterrupt then 0 else 1
                | Returns c \<Rightarrow>
                    if lower c \<noteq> ''yes'' then 0
                    else (case Client w (getenv w ''BINANCE_API_KEY'')
                                 (getenv w ''BINANCE_API_SECRET'') True of
                            Raises e \<Rightarrow> if e = KeyboardInterrupt then 0 else 1
                          | Returns u \<Rightarrow>
                              (case futures_create_order w
                                      (if ot = ''MARKET'' then market_order_kwargs s sd q
                                       else limit_order_kwargs s sd q (price_val p)) of
                                 Returns r \<Rightarrow> 0
                               | Raises e \<Rightarrow> if e = KeyboardInterrupt then 0 else 1))))
   \<and> (input_line w = Returns c \<and> lower c \<noteq> ''yes'' \<longrightarrow>
        gateway_calls (fst (main w a)) = [] \<and> orders_sent (fst (main w a)) = [])"
proof
  show "snd (main w a) =
     (case snd (validate_inputs w a) of
        Inl e \<Rightarrow> 1
      | Inr (s, sd, ot, q, p) \<Rightarrow>
          if \<not> str_bool (getenv w ''BINANCE_API_KEY'')
             \<or> \<not> str_bool (getenv w ''BINANCE_API_SECRET'')
          then 1
          else (case input_line w of
                  Raises e \<Rightarrow> if e = KeyboardInterrupt then 0 else 1
                | Returns c \<Rightarrow>
                    if lower c \<noteq> ''yes'' then 0
                    else (case Client w (getenv w ''BINANCE_API_KEY'')
                                 (getenv w ''BINANCE_API_SECRET'') True of
                            Raises e \<Rightarrow> if e = KeyboardInterrupt then 0 else 1
                          | Returns u \<Rightarrow>
                              (case futures_create_order w
                                      (if ot = ''MARKET'' then market_order_kwargs s sd q
                                       else limit_order_kwargs s sd q (price_val p)) of
                                 Returns r \<Rightarrow> 0
                               | Raises e \<Rightarrow> if e = KeyboardInterrupt then 0 else 1))))"
    by (simp add: main_result main_try_result split: sum.splits outcome.splits)
  show "input_line w = Returns c \<and> lower c \<noteq> ''yes'' \<longrightarrow>
        gateway_calls (fst (main w a)) = [] \<and> orders_sent (fst (main w a)) = []"
    by (simp add: main_calls main_try_calls main_orders_sent split: sum.splits)
qed


theorem main_exit_code_witness:
  "snd (main (example_env (Returns ''yes'') (Returns ()) (Returns example_reply)) market_args) = 0
   \<and> snd (main (example_env (Returns ''no'') (Returns ()) (Returns example_reply))
              (limit_args (Some (Fin 2500)))) = 0
   \<and> gateway_calls (fst (main (example_env (Returns ''no'') (Returns ()) (Returns example_reply))
              (limit_args (Some (Fin 2500))))) = []
   \<and> snd (main (example_env (Raises KeyboardInterrupt) (Returns ()) (Returns example_reply))
              market_args) = 0
   \<and> snd (main (example_env (Returns ''yes'') (Returns ()) (Returns example_reply))
              (limit_args None)) = 1
   \<and> snd (main ((example_env (Returns ''yes'') (Returns ()) (Returns example_reply))
                   \<lparr>getenv := (\<lambda>name. None)\<rparr>) market_args) = 1
   \<and> snd (main (example_env (Returns ''yes'') (Raises (Exception ''timed out''))
                   (Returns example_reply)) market_args) = 1
   \<and> snd (main (example_env (Returns ''yes'') (Returns ())
                   (Raises (BinanceAPIException (- 2019) ''Margin is insufficient.'')))
              market_args) = 1"
proof -
  note ev = validate_inputs_market validate_inputs_limit_2500 validate_inputs_limit_none
    example_getenv example_env_sel lower_examples
  have "snd (main (example_env (Returns ''yes'') (Returns ()) (Returns example_reply)) market_args) = 0"
    using main_exit_code [of "example_env (Returns ''yes'') (Returns ()) (Returns example_reply)"
        market_args "''yes''"]
    by (simp add: ev)
  moreover have "snd (main (example_env (Returns ''no'') (Returns ()) (Returns example_reply))
              (limit_args (Some (Fin 2500)))) = 0
   \<and> gateway_calls (fst (main (example_env (Returns ''no'') (Returns ()) (Returns example_reply))
              (limit_args (Some (Fin 2500))))) = []"
    using main_exit_code [of "example_env (Returns ''no'') (Returns ()) (Returns example_reply)"
        "limit_args (Some (Fin 2500))" "''no''"]
    by (simp add: ev)
  moreover have "snd (main (example_env (Raises KeyboardInterrupt) (Returns ()) (Returns example_reply))
              market_args) = 0"
    using main_exit_code [of "example_env (Raises KeyboardInterrupt) (Returns ()) (Returns example_reply)"
        market_args "''yes''"]
    by (simp add: ev)
  moreover have "snd (main (example_env (Returns ''yes'') (Returns ()) (Returns example_reply))
              (limit_args None)) = 1"
    using main_exit_code [of "example_env (Returns ''yes'') (Returns ()) (Returns example_reply)"
        "limit_args None" "''yes''"]
    by (simp add: ev)
  moreover have "snd (main ((example_env (Returns ''yes'') (Returns ()) (Returns example_reply))
                   \<lparr>getenv := (\<lambda>name. None)\<rparr>) market_args) = 1"
    using main_exit_code [of "(example_env (Returns ''yes'') (Returns ()) (Returns example_reply))
                   \<lparr>getenv := (\<lambda>name. None)\<rparr>" market_args "''yes''"]
    by (simp add: ev str_bool_def)
  moreover have "snd (main (example_env (Returns ''yes'') (Raises (Exception ''timed out''))
                   (Returns example_reply)) market_args) = 1"
    using main_exit_code [of "example_env (Returns ''yes'') (Raises (Exception ''timed out''))
                   (Returns example_reply)" market_args "''yes''"]
    by (simp add: ev)
  moreover have "snd (main (example_env (Returns ''yes'') (Returns ())
                   (Raises (BinanceAPIException (- 2019) ''Margin is insufficient.'')))
              market_args) = 1"
    using main_exit_code [of "example_env (Returns ''yes'') (Returns ())
                   (Raises (BinanceAPIException (- 2019) ''Margin is insufficient.''))"
        market_args "''yes''"]
    by (simp add: ev)
  ultimately show ?thesis
    by blast
qed

subsection \<open>The whole of \<open>main()\<close>, with the command line\<close>

lemma example_parse_args_lines:
  "example_parse_args [''--help''] = SystemExit 0"
  "example_parse_args [''BTCUSDT'', ''BUY'', ''MARKET'', ''0.001''] = Parsed market_args"
  "example_parse_args [''ETHUSDT'', ''SELL'', ''LIMIT'', ''0.1''] = Parsed (limit_args None)"
  "example_parse_args [''ETHUSDT'', ''SELL'', ''LIMIT'', ''0.1'', ''--price'', ''2500.0'']
     = Parsed (limit_args (Some (Fin 2500)))"
  "example_parse_args [''ETHUSDT'', ''SELL'', ''LIMIT'', ''0.1'', ''--price'', ''abc'']
     = SystemExit 2"
  by (simp_all add: example_parse_args_def no_dash_def market_args_def limit_args_def
      py_float_2500 py_float_abc)

lemma cli_main_result:
  "snd (cli_main pa w argv) =
     (case pa argv of SystemExit status \<Rightarrow> status | Parsed a \<Rightarrow> snd (main w a))"
  by (simp add: cli_main_def split: parse_result.splits prod.splits)

lemma gateway_calls_print_banner: "gateway_calls print_banner = []"
  by (simp add: print_banner_def gateway_calls_simps)

lemma cli_main_calls:
  "gateway_calls (fst (cli_main pa w argv)) =
     (case pa argv of SystemExit status \<Rightarrow> []
      | Parsed a \<Rightarrow> gateway_calls (fst (main w a)))"
  by (simp add: cli_main_def gateway_calls_append gateway_calls_print_banner
      split: parse_result.splits prod.splits)

lemma cli_main_orders:
  "orders_sent (fst (cli_main pa w argv)) =
     (case pa argv of SystemExit status \<Rightarrow> []
      | Parsed a \<Rightarrow> orders_sent (fst (main w a)))"
  using orders_sent_gateway_calls [of "fst (cli_main pa w argv)"]
  by (simp add: cli_main_calls orders_sent_gateway_calls orders_sent_simps
      split: parse_result.splits)

text \<open>
  C1, as stated. The process does not exit with code 0 only when an order was placed,
  the user declined or the user interrupted: for \<open>--help\<close> argparse ends it with
  status 0 after the banner, before any validation, prompt or order. And a validation
  failure does not always give code 1: a \<open>--price\<close> that is not a number is refused by
  argparse, which ends the process with status 2.
\<close>

theorem exit_code_counterexample:
  "snd (cli_main example_parse_args
          (example_env (Returns ''yes'') (Returns ()) (Returns example_reply)) [''--help'']) = 0
   \<and> fst (cli_main example_parse_args
          (example_env (Returns ''yes'') (Returns ()) (Returns example_reply)) [''--help''])
       = print_banner
   \<and> snd (cli_main example_parse_args
          (example_env (Returns ''yes'') (Returns ()) (Returns example_reply))
          [''ETHUSDT'', ''SELL'', ''LIMIT'', ''0.1'', ''--price'', ''abc'']) = 2"
  by (simp add: cli_main_def example_parse_args_lines)

text \<open>
  C1, amended. When \<open>parse_args\<close> ends the process, the exit code is the status
  argparse chose, and nothing was sent. When it returns the arguments, the exit code
  is 0 exactly when the order was placed, the user declined or the user interrupted,
  and 1 on a validation failure, a missing credential, a connection failure or a
  submission failure (and on any other exception); a run in which the user declines
  makes no call to the exchange library and sends no order.
\<close>

theorem cli_main_exit_code:
  "(parse_args argv = SystemExit status \<longrightarrow>
      snd (cli_main parse_args w argv) = status
      \<and> gateway_calls (fst (cli_main parse_args w argv)) = []
      \<and> orders_sent (fst (cli_main parse_args w argv)) = [])
   \<and> (parse_args argv = Parsed a \<longrightarrow>
      snd (cli_main parse_args w argv) =
        (case snd (validate_inputs w a) of
           Inl e \<Rightarrow> 1
         | Inr (s, sd, ot, q, p) \<Rightarrow>
             if \<not> str_bool (getenv w ''BINANCE_API_KEY'')
                \<or> \<not> str_bool (getenv w ''BINANCE_API_SECRET'')
             then 1
             else (case input_line w of
                     Raises e \<Rightarrow> if e = KeyboardInterrupt then 0 else 1
                   | Returns c \<Rightarrow>
                       if lower c \<noteq> ''yes'' then 0
                       else (case Client w (getenv w ''BINANCE_API_KEY'')
                                    (getenv w ''BINANCE_API_SECRET'') True of
                               Raises e \<Rightarrow> if e = KeyboardInterrupt then 0 else 1
                             | Returns u \<Rightarrow>
                                 (case futures_create_order w
                                         (if ot = ''MARKET'' then market_order_kwargs s sd q
                                          else limit_order_kwargs s sd q (price_val p)) of
                                    Returns r \<Rightarrow> 0
                                  | Raises e \<Rightarrow> if e = KeyboardInterrupt then 0 else 1))))
      \<and> (input_line w = Returns c \<and> lower c \<noteq> ''yes'' \<longrightarrow>
           gateway_calls (fst (cli_main parse_args w argv)) = []
           \<and> orders_sent (fst (cli_main parse_args w argv)) = []))"
proof (intro conjI impI)
  assume p: "parse_args argv = Parsed a"
  show "snd (cli_main parse_args w argv) =
        (case snd (validate_inputs w a) of
           Inl e \<Rightarrow> 1
         | Inr (s, sd, ot, q, p) \<Rightarrow>
             if \<not> str_bool (getenv w ''BINANCE_API_KEY'')
                \<or> \<not> str_bool (getenv w ''BINANCE_API_SECRET'')
             then 1
             else (case input_line w of
                     Raises e \<Rightarrow> if e = KeyboardInterrupt then 0 else 1
                   | Returns c \<Rightarrow>
                       if lower c \<noteq> ''yes'' then 0
                       else (case Client w (getenv w ''BINANCE_API_KEY'')
                                    (getenv w ''BINANCE_API_SECRET'') True of
                               Raises e \<Rightarrow> if e = KeyboardInterrupt then 0 else 1
                             | Returns u \<Rightarrow>
                                 (case futures_create_order w
                                         (if ot = ''MARKET'' then market_order_kwargs s sd q
                                          else limit_order_kwargs s sd q (price_val p)) of
                                    Returns r \<Rightarrow> 0
                                  | Raises e \<Rightarrow> if e = KeyboardInterrupt then 0 else 1))))"
    using p by (simp add: cli_main_result main_result main_try_result
        split: sum.splits outcome.splits)
next
  assume p: "parse_args argv = Parsed a" and d: "input_line w = Returns c \<and> lower c \<noteq> ''yes''"
  from p d show "gateway_calls (fst (cli_main parse_args w argv)) = []"
    by (simp add: cli_main_calls main_calls main_try_calls split: sum.splits)
  from p d show "orders_sent (fst (cli_main parse_args w argv)) = []"
    by (simp add: cli_main_orders main_orders_sent split: sum.splits)
qed (simp_all add: cli_main_result cli_main_calls cli_main_orders)

theorem cli_main_exit_code_witness:
  "example_parse_args [''--help''] = SystemExit 0
   \<and> snd (cli_main example_parse_args
            (example_env (Returns ''yes'') (Returns ()) (Returns example_reply)) [''--help'']) = 0
   \<and> example_parse_args [''ETHUSDT'', ''SELL'', ''LIMIT'', ''0.1'', ''--price'', ''abc'']
       = SystemExit 2
   \<and> snd (cli_main example_parse_args
            (example_env (Returns ''yes'') (Returns ()) (Returns example_reply))
            [''ETHUSDT'', ''SELL'', ''LIMIT'', ''0.1'', ''--price'', ''abc'']) = 2
   \<and> example_parse_args [''BTCUSDT'', ''BUY'', ''MARKET'', ''0.001''] = Parsed market_args
   \<and> snd (cli_main example_parse_args
            (example_env (Returns ''yes'') (Returns ()) (Returns example_reply))
            [''BTCUSDT'', ''BUY'', ''MARKET'', ''0.001'']) = 0
   \<and> snd (cli_main example_parse_args
            (example_env (Returns ''no'') (Returns ()) (Returns example_reply))
            [''BTCUSDT'', ''BUY'', ''MARKET'', ''0.001'']) = 0
   \<and> gateway_calls (fst (cli_main example_parse_args
            (example_env (Returns ''no'') (Returns ()) (Returns example_reply))
            [''BTCUSDT'', ''BUY'', ''MARKET'', ''0.001''])) = []
   \<and> snd (cli_main example_parse_args
            (example_env (Raises KeyboardInterrupt) (Returns ()) (Returns example_reply))
            [''BTCUSDT'', ''BUY'', ''MARKET'', ''0.001'']) = 0
   \<and> snd (cli_main example_parse_args
            (example_env (Returns ''yes'') (Returns ()) (Returns example_reply))
            [''ETHUSDT'', ''SELL'', ''LIMIT'', ''0.1'']) = 1
   \<and> snd (cli_main example_parse_args
            ((example_env (Returns ''yes'') (Returns ()) (Returns example_reply))
               \<lparr>getenv := (\<lambda>name. None)\<rparr>)
            [''BTCUSDT'', ''BUY'', ''MARKET'', ''0.001'']) = 1
   \<and> snd (cli_main example_parse_args
            (example_env (Returns ''yes'') (Raises (Exception ''timed out''))
               (Returns example_reply))
            [''BTCUSDT'', ''BUY'', ''MARKET'', ''0.001'']) = 1
   \<and> snd (cli_main example_parse_args
            (example_env (Returns ''yes'') (Returns ())
               (Raises (BinanceAPIException (- 2019) ''Margin is insufficient.'')))
            [''BTCUSDT'', ''BUY'', ''MARKET'', ''0.001'']) = 1"
proof -
  note ev = example_parse_args_lines validate_inputs_market validate_inputs_limit_none
    example_getenv example_env_sel lower_examples
  note t = cli_main_exit_code [where parse_args = example_parse_args]
  have "snd (cli_main example_parse_args
            (example_env (Returns ''yes'') (Returns ()) (Returns example_reply)) [''--help'']) = 0"
    using t [where argv = "[''--help'']" and status = 0
        and w = "example_env (Returns ''yes'') (Returns ()) (Returns example_reply)"]
    by (simp add: ev)
  moreover have "snd (cli_main example_parse_args
            (example_env (Returns ''yes'') (Returns ()) (Returns example_reply))
            [''ETHUSDT'', ''SELL'', ''LIMIT'', ''0.1'', ''--price'', ''abc'']) = 2"
    using t [where argv = "[''ETHUSDT'', ''SELL'', ''LIMIT'', ''0.1'', ''--price'', ''abc'']"
        and status = 2
        and w = "example_env (Returns ''yes'') (Returns ()) (Returns example_reply)"]
    by (simp add: ev)
  moreover have "snd (cli_main example_parse_args
            (example_env (Returns ''yes'') (Returns ()) (Returns example_reply))
            [''BTCUSDT'', ''BUY'', ''MARKET'', ''0.001'']) = 0"
    using t [where argv = "[''BTCUSDT'', ''BUY'', ''MARKET'', ''0.001'']" and a = market_args
        and w = "example_env (Returns ''yes'') (Returns ()) (Returns example_reply)"
        and c = "''yes''"]
    by (simp add: ev)
  moreover have "snd (cli_main example_parse_args
            (example_env (Returns ''no'') (Returns ()) (Returns example_reply))
            [''BTCUSDT'', ''BUY'', ''MARKET'', ''0.001'']) = 0
   \<and> gateway_calls (fst (cli_main example_parse_args
            (example_env (Returns ''no'') (Returns ()) (Returns example_reply))
            [''BTCUSDT'', ''BUY'', ''MARKET'', ''0.001''])) = []"
    using t [where argv = "[''BTCUSDT'', ''BUY'', ''MARKET'', ''0.001'']" and a = market_args
        and w = "example_env (Returns ''no'') (Returns ()) (Returns example_reply)"
        and c = "''no''"]
    by (simp add: ev)
  moreover have "snd (cli_main example_parse_args
            (example_env (Raises KeyboardInterrupt) (Returns ()) (Returns example_reply))
            [''BTCUSDT'', ''BUY'', ''MARKET'', ''0.001'']) = 0"
    using t [where argv = "[''BTCUSDT'', ''BUY'', ''MARKET'', ''0.001'']" and a = market_args
        and w = "example_env (Raises KeyboardInterrupt) (Returns ()) (Returns example_reply)"
        and c = "''yes''"]
    by (simp add: ev)
  moreover have "snd (cli_main example_parse_args
            (example_env (Returns ''yes'') (Returns ()) (Returns example_reply))
            [''ETHUSDT'', ''SELL'', ''LIMIT'', ''0.1'']) = 1"
    using t [where argv = "[''ETHUSDT'', ''SELL'', ''LIMIT'', ''0.1'']" and a = "limit_args None"
        and w = "example_env (Returns ''yes'') (Returns ()) (Returns example_reply)"
        and c = "''yes''"]
    by (simp add: ev)
  moreover have "snd (cli_main example_parse_args
            ((example_env (Returns ''yes'') (Returns ()) (Returns example_reply))
               \<lparr>getenv := (\<lambda>name. None)\<rparr>)
            [''BTCUSDT'', ''BUY'', ''MARKET'', ''0.001'']) = 1"
    using t [where argv = "[''BTCUSDT'', ''BUY'', ''MARKET'', ''0.001'']" and a = market_args
        and w = "(example_env (Returns ''yes'') (Returns ()) (Returns example_reply))
               \<lparr>getenv := (\<lambda>name. None)\<rparr>"
        and c = "''yes''"]
    by (simp add: ev str_bool_def)
  moreover have "snd (cli_main example_parse_args
            (example_env (Returns ''yes'') (Raises (Exception ''timed out''))
               (Returns example_reply))
            [''BTCUSDT'', ''BUY'', ''MARKET'', ''0.001'']) = 1"
    using t [where argv = "[''BTCUSDT'', ''BUY'', ''MARKET'', ''0.001'']" and a = market_args
        and w = "example_env (Returns ''yes'') (Raises (Exception ''timed out''))
               (Returns example_reply)"
        and c = "''yes''"]
    by (simp add: ev)
  moreover have "snd (cli_main example_parse_args
            (example_env (Returns ''yes'') (Returns ())
               (Raises (BinanceAPIException (- 2019) ''Margin is insufficient.'')))
            [''BTCUSDT'', ''BUY'', ''MARKET'', ''0.001'']) = 1"
    using t [where argv = "[''BTCUSDT'', ''BUY'', ''MARKET'', ''0.001'']" and a = market_args
        and w = "example_env (Returns ''yes'') (Returns ())
               (Raises (BinanceAPIException (- 2019) ''Margin is insufficient.''))"
        and c = "''yes''"]
    by (simp add: ev)
  ultimately show ?thesis
    using example_parse_args_lines by blast
qed

section \<open>The price of a LIMIT order\<close>

text \<open>
  A LIMIT order without a price is rejected with the message of its own, before
  anything is sent, and the exit code is 1.
\<close>

lemma limit_without_price:
  assumes "validate_symbol (symbol a) = Inr s" and "validate_side (side a) = Inr sd"
    and "validate_order_type (order_type a) = Inr ''LIMIT''"
    and "snd (validate_quantity (float_str w) (quantity a)) = Inr q"
    and "price a = None"
  shows "snd (validate_inputs w a) = Inl (ValueError '' Price is required for LIMIT orders!'')
         \<and> snd (main w a) = 1 \<and> gateway_calls (fst (main w a)) = []"
proof -
  from assms have v: "snd (validate_inputs w a) =
      Inl (ValueError '' Price is required for LIMIT orders!'')"
    by (cases "validate_quantity (float_str w) (quantity a)")
       (simp add: validate_inputs_def price_bool_def)
  then show ?thesis
    by (simp add: main_result main_try_result main_calls main_try_calls)
qed

text \<open>
  C2. A price that is supplied is to be checked by \<open>validate_price\<close>. For the order
  \<open>ETHUSDT SELL LIMIT 0.1 --price 0\<close> the test \<open>not args.price\<close> is true, since the float
  zero is false, and the run ends with the message for a missing price; \<open>validate_price\<close>,
  which would report the price zero as invalid, is never called.
\<close>

theorem limit_price_zero_reported_missing:
  "snd (validate_inputs w (limit_args (Some (Fin 0)))) =
     Inl (ValueError '' Price is required for LIMIT orders!'')
   \<and> snd (main w (limit_args (Some (Fin 0)))) = 1
   \<and> validate_price ''0.0'' = Inl (ValueError ''Invalid price: 0.0. Must be a positive number'')"
  by (simp add: validate_inputs_limit_zero main_result main_try_result validate_price_cases
      py_float_0_0)


section \<open>The orders that are sent\<close>

lemma orders_sent_place_market_order:
  "orders_sent (fst (place_market_order w s sd q)) = [market_order_kwargs s sd q]"
  using place_market_order_events [of w s sd q]
    orders_sent_gateway_calls [of "fst (place_market_order w s sd q)"]
  by (simp add: orders_sent_simps)

lemma orders_sent_place_limit_order:
  "orders_sent (fst (place_limit_order w s sd q p)) = [limit_order_kwargs s sd q p]"
  using place_limit_order_events [of w s sd q p]
    orders_sent_gateway_calls [of "fst (place_limit_order w s sd q p)"]
  by (simp add: orders_sent_simps)

lemma main_orders_cases:
  assumes "kw \<in> set (orders_sent (fst (main w a)))"
  shows "\<exists>s sd q p. snd (validate_inputs w a) = Inr (s, sd, ''MARKET'', q, None)
                       \<and> kw = market_order_kwargs s sd q
                   \<or> snd (validate_inputs w a) = Inr (s, sd, ''LIMIT'', q, Some p)
                       \<and> kw = limit_order_kwargs s sd q (PFloat p)"
proof (cases "snd (validate_inputs w a)")
  case (Inl e)
  with assms show ?thesis
    by (simp add: main_orders_sent)
next
  case (Inr ord)
  obtain s sd ot q p where ord: "ord = (s, sd, ot, q, p)"
    by (cases ord)
  from Inr ord have "(ot = ''MARKET'' \<and> p = None) \<or> (ot = ''LIMIT'' \<and> (\<exists>x. p = Some x))"
    using validate_inputs_order by blast
  moreover from assms Inr ord
  have "kw = (if ot = ''MARKET'' then market_order_kwargs s sd q
              else limit_order_kwargs s sd q (price_val p))"
    by (auto simp: main_orders_sent split: if_splits outcome.splits)
  ultimately show ?thesis
    using Inr ord by (auto simp: price_val_def)
qed

text \<open>
  C6. The keyword arguments of a MARKET order have no price; those of a LIMIT order have
  the price and the time in force GTC; each of the two functions sends exactly its own
  arguments. In every order that a run of \<open>main\<close> sends, a price (a float) is present
  exactly when the type is LIMIT and absent exactly when it is MARKET, and a LIMIT order
  carries GTC. When the order type is MARKET, no order of the run has a price, whatever
  \<open>--price\<close> was.
\<close>

theorem price_sent_iff_limit:
  "map_of (market_order_kwargs s sd q) ''price'' = None
   \<and> map_of (limit_order_kwargs s sd q p) ''price'' = Some p
   \<and> map_of (limit_order_kwargs s sd q p) ''timeInForce'' = Some (PStr ''GTC'')
   \<and> orders_sent (fst (place_market_order w s sd q)) = [market_order_kwargs s sd q]
   \<and> orders_sent (fst (place_limit_order w s sd q p)) = [limit_order_kwargs s sd q p]
   \<and> (\<forall>kw \<in> set (orders_sent (fst (main w a))).
         ((\<exists>x. map_of kw ''price'' = Some (PFloat x)) \<longleftrightarrow> map_of kw ''type'' = Some (PStr ''LIMIT''))
         \<and> (map_of kw ''price'' = None \<longleftrightarrow> map_of kw ''type'' = Some (PStr ''MARKET''))
         \<and> (map_of kw ''type'' = Some (PStr ''LIMIT'')
              \<longrightarrow> map_of kw ''timeInForce'' = Some (PStr ''GTC'')))
   \<and> (validate_order_type (order_type a) = Inr ''MARKET'' \<longrightarrow>
         (\<forall>kw \<in> set (orders_sent (fst (main w a))). map_of kw ''price'' = None))"
proof (intro conjI ballI impI)
  fix kw assume "kw \<in> set (orders_sent (fst (main w a)))"
  then obtain s' sd' q' p' where
    "kw = market_order_kwargs s' sd' q' \<or> kw = limit_order_kwargs s' sd' q' (PFloat p')"
    using main_orders_cases by blast
  then show "(\<exists>x. map_of kw ''price'' = Some (PFloat x)) \<longleftrightarrow> map_of kw ''type'' = Some (PStr ''LIMIT'')"
    and "map_of kw ''price'' = None \<longleftrightarrow> map_of kw ''type'' = Some (PStr ''MARKET'')"
    and "map_of kw ''type'' = Some (PStr ''LIMIT'')
           \<Longrightarrow> map_of kw ''timeInForce'' = Some (PStr ''GTC'')"
    by (auto simp: market_order_kwargs_def limit_order_kwargs_def)
next
  fix kw
  assume m: "validate_order_type (order_type a) = Inr ''MARKET''"
    and "kw \<in> set (orders_sent (fst (main w a)))"
  then obtain s' sd' q' p' where
    c: "snd (validate_inputs w a) = Inr (s', sd', ''MARKET'', q', None)
          \<and> kw = market_order_kwargs s' sd' q'
        \<or> snd (validate_inputs w a) = Inr (s', sd', ''LIMIT'', q', Some p')
          \<and> kw = limit_order_kwargs s' sd' q' (PFloat p')"
    using main_orders_cases by blast
  have "snd (validate_inputs w a) \<noteq> Inr (s', sd', ''LIMIT'', q', Some p')"
    using m by (auto simp: validate_inputs_def split: sum.splits prod.splits if_splits)
  with c show "map_of kw ''price'' = None"
    by (auto simp: market_order_kwargs_def)
qed (simp_all add: market_order_kwargs_def limit_order_kwargs_def
    orders_sent_place_market_order orders_sent_place_limit_order)

theorem price_sent_iff_limit_witness:
  "limit_order_kwargs ''ETHUSDT'' ''SELL'' (Fin (3602879701896397 / 36028797018963968))
       (PFloat (Fin 2500))
     \<in> set (orders_sent (fst (main (example_env (Returns ''yes'') (Returns ())
                                        (Returns example_reply))
                                  (limit_args (Some (Fin 2500))))))
   \<and> map_of (limit_order_kwargs ''ETHUSDT'' ''SELL''
                (Fin (3602879701896397 / 36028797018963968)) (PFloat (Fin 2500))) ''price''
       = Some (PFloat (Fin 2500))
   \<and> map_of (limit_order_kwargs ''ETHUSDT'' ''SELL''
                (Fin (3602879701896397 / 36028797018963968)) (PFloat (Fin 2500))) ''timeInForce''
       = Some (PStr ''GTC'')
   \<and> validate_order_type (order_type (market_args\<lparr>price := Some (Fin 2500)\<rparr>)) = Inr ''MARKET''
   \<and> market_order_kwargs ''BTCUSDT'' ''BUY'' min_quantity
     \<in> set (orders_sent (fst (main (example_env (Returns ''yes'') (Returns ())
                                        (Returns example_reply))
                                  (market_args\<lparr>price := Some (Fin 2500)\<rparr>))))
   \<and> map_of (market_order_kwargs ''BTCUSDT'' ''BUY'' min_quantity) ''price'' = None"
proof -
  note a = price_sent_iff_limit
    [where w = "example_env (Returns ''yes'') (Returns ()) (Returns example_reply)"
       and a = "limit_args (Some (Fin 2500))" and s = "''ETHUSDT''" and sd = "''SELL''"
       and q = "Fin (3602879701896397 / 36028797018963968)" and p = "PFloat (Fin 2500)"]
  note b = price_sent_iff_limit
    [where w = "example_env (Returns ''yes'') (Returns ()) (Returns example_reply)"
       and a = "market_args\<lparr>price := Some (Fin 2500)\<rparr>" and s = "''BTCUSDT''"
       and sd = "''BUY''" and q = min_quantity]
  have l: "orders_sent (fst (main (example_env (Returns ''yes'') (Returns ())
                                        (Returns example_reply))
                                  (limit_args (Some (Fin 2500))))) =
       [limit_order_kwargs ''ETHUSDT'' ''SELL'' (Fin (3602879701896397 / 36028797018963968))
          (PFloat (Fin 2500))]"
    by (simp add: main_orders_sent validate_inputs_limit_2500 example_getenv example_env_sel
        lower_examples price_val_def)
  have m: "orders_sent (fst (main (example_env (Returns ''yes'') (Returns ())
                                        (Returns example_reply))
                                  (market_args\<lparr>price := Some (Fin 2500)\<rparr>))) =
       [market_order_kwargs ''BTCUSDT'' ''BUY'' min_quantity]"
    by (simp add: main_orders_sent validate_inputs_market_with_price example_getenv
        example_env_sel lower_examples)
  have t: "validate_order_type (order_type (market_args\<lparr>price := Some (Fin 2500)\<rparr>))
       = Inr ''MARKET''"
    by (simp add: market_args_def validate_order_type_fixed)
  from a b l m t show ?thesis
    by simp
qed

section \<open>The status query\<close>

lemma str_int_12345: "str_int 12345 = ''12345''"
  by (simp add: str_int_def str_nat.simps char_of_eq_iff)

text \<open>
  C7, as stated. \<open>get_order_status\<close> does propagate an exception: its handler is
  \<open>except Exception\<close>, and a \<open>KeyboardInterrupt\<close> raised while the query runs is not
  derived from \<open>Exception\<close>. It reaches the caller, and no error is logged.
\<close>

theorem get_order_status_interrupt_counterexample:
  "get_order_status (example_env (Returns ''yes'') (Returns ()) (Raises KeyboardInterrupt))
     ''BTCUSDT'' 12345 =
     ([LogInfo '' Checking order status for ID: 12345'',
       GetOrder [(''symbol'', PStr ''BTCUSDT''), (''orderId'', PInt 12345)]],
      Inl KeyboardInterrupt)"
  by (simp add: get_order_status_def get_order_kwargs_def example_env_sel str_int_12345)

text \<open>
  C7, amended. \<open>get_order_status\<close> returns the order that the exchange returns. When
  the query raises an exception derived from \<open>Exception\<close>, it logs the error and
  returns \<open>None\<close>. A \<open>KeyboardInterrupt\<close> is passed on to the caller, with nothing
  logged after the query. In every case it makes the one query and no other call.
\<close>

theorem get_order_status_best_effort:
  "(futures_get_order w (get_order_kwargs s i) = Returns r \<longrightarrow>
      snd (get_order_status w s i) = Inr (Some r))
   \<and> (futures_get_order w (get_order_kwargs s i) = Raises e \<and> e \<noteq> KeyboardInterrupt \<longrightarrow>
      snd (get_order_status w s i) = Inr None
      \<and> LogError (''Failed to check order status: '' @ str_exn e)
          \<in> set (fst (get_order_status w s i)))
   \<and> (futures_get_order w (get_order_kwargs s i) = Raises KeyboardInterrupt \<longrightarrow>
      get_order_status w s i =
        ([LogInfo ('' Checking order status for ID: '' @ str_int i),
          GetOrder (get_order_kwargs s i)],
         Inl KeyboardInterrupt))
   \<and> gateway_calls (fst (get_order_status w s i)) = [GetOrder (get_order_kwargs s i)]"
  by (auto simp: get_order_status_def Let_def gateway_calls_simps gateway_calls_append
      split: outcome.splits exn.splits)


theorem get_order_status_best_effort_witness:
  "snd (get_order_status (example_env (Returns ''yes'') (Returns ()) (Returns example_reply))
          ''BTCUSDT'' 12345) = Inr (Some example_reply)
   \<and> snd (get_order_status
            (example_env (Returns ''yes'') (Returns ()) (Raises (Exception ''timed out'')))
            ''BTCUSDT'' 12345) = Inr None
   \<and> LogError ''Failed to check order status: timed out''
       \<in> set (fst (get_order_status
            (example_env (Returns ''yes'') (Returns ()) (Raises (Exception ''timed out'')))
            ''BTCUSDT'' 12345))
   \<and> get_order_status
        (example_env (Returns ''yes'') (Returns ()) (Raises KeyboardInterrupt))
        ''BTCUSDT'' 12345 =
       ([LogInfo '' Checking order status for ID: 12345'',
         GetOrder (get_order_kwargs ''BTCUSDT'' 12345)],
        Inl KeyboardInterrupt)"
  using get_order_status_best_effort
    [where w = "example_env (Returns ''yes'') (Returns ()) (Returns example_reply)"
       and s = "''BTCUSDT''" and i = 12345 and r = example_reply]
    get_order_status_best_effort
    [where w = "example_env (Returns ''yes'') (Returns ()) (Raises (Exception ''timed out''))"
       and s = "''BTCUSDT''" and i = 12345 and e = "Exception ''timed out''"]
    get_order_status_best_effort
    [where w = "example_env (Returns ''yes'') (Returns ()) (Raises KeyboardInterrupt)"
       and s = "''BTCUSDT''" and i = 12345]
  by (simp add: example_env_sel str_exn_def str_int_12345)

section \<open>The confirmation\<close>

text \<open>
  C10. The prompt returns true exactly when the answer, in lower case, is the text
  \<open>yes\<close>. After any other answer to a valid order with credentials, \<open>main\<close> exits with
  code 0, has made no call to the exchange library and has sent no order.
\<close>

theorem confirmation_requires_yes:
  "(input_line w = Returns c \<longrightarrow>
      snd (print_order_summary w s sd ot q p) = Inr (lower c = ''yes''))
   \<and> (input_line w = Returns c \<and> lower c \<noteq> ''yes''
       \<and> snd (validate_inputs w a) = Inr ord
       \<and> str_bool (getenv w ''BINANCE_API_KEY'') \<and> str_bool (getenv w ''BINANCE_API_SECRET'')
       \<longrightarrow> snd (main w a) = 0 \<and> gateway_calls (fst (main w a)) = []
           \<and> orders_sent (fst (main w a)) = [])"
  by (auto simp: print_order_summary_result main_result main_try_result main_calls
      main_try_calls main_orders_sent split: prod.splits)

theorem confirmation_requires_yes_witness:
  "snd (print_order_summary (example_env (Returns ''YES'') (Returns ()) (Returns example_reply))
          ''BTCUSDT'' ''BUY'' ''MARKET'' min_quantity None) = Inr True
   \<and> snd (print_order_summary (example_env (Returns ''y'') (Returns ()) (Returns example_reply))
          ''BTCUSDT'' ''BUY'' ''MARKET'' min_quantity None) = Inr False
   \<and> snd (print_order_summary (example_env (Returns ''YES '') (Returns ()) (Returns example_reply))
          ''BTCUSDT'' ''BUY'' ''MARKET'' min_quantity None) = Inr False
   \<and> snd (print_order_summary (example_env (Returns []) (Returns ()) (Returns example_reply))
          ''BTCUSDT'' ''BUY'' ''MARKET'' min_quantity None) = Inr False
   \<and> snd (main (example_env (Returns ''YES '') (Returns ()) (Returns example_reply))
              market_args) = 0
   \<and> gateway_calls (fst (main (example_env (Returns ''YES '') (Returns ())
                                   (Returns example_reply)) market_args)) = []
   \<and> orders_sent (fst (main (example_env (Returns ''YES '') (Returns ())
                                   (Returns example_reply)) market_args)) = []"
  using confirmation_requires_yes
    [where w = "example_env (Returns ''YES'') (Returns ()) (Returns example_reply)"
       and c = "''YES''" and s = "''BTCUSDT''" and sd = "''BUY''" and ot = "''MARKET''"
       and q = min_quantity and p = None]
    confirmation_requires_yes
    [where w = "example_env (Returns ''y'') (Returns ()) (Returns example_reply)"
       and c = "''y''" and s = "''BTCUSDT''" and sd = "''BUY''" and ot = "''MARKET''"
       and q = min_quantity and p = None]
    confirmation_requires_yes
    [where w = "example_env (Returns []) (Returns ()) (Returns example_reply)"
       and c = "[]" and s = "''BTCUSDT''" and sd = "''BUY''" and ot = "''MARKET''"
       and q = min_quantity and p = None]
    confirmation_requires_yes
    [where w = "example_env (Returns ''YES '') (Returns ()) (Returns example_reply)"
       and c = "''YES ''" and s = "''BTCUSDT''" and sd = "''BUY''" and ot = "''MARKET''"
       and q = min_quantity and p = None and a = market_args
       and ord = "(''BTCUSDT'', ''BUY'', ''MARKET'', min_quantity, None)"]
  by (simp add: example_env_sel example_getenv lower_examples validate_inputs_market)

end
